theory Spec2Isabelle
  imports Main "HOL-Library.Log_Nat"
begin

section \<open>Data model\<close>

text \<open>
  A record of the training data is the triple appended by \<open>load_data\<close>:
  \<open>(message, channel, output)\<close>. Python strings are lists of characters, Python
  integers are unbounded.
\<close>

type_synonym datapoint = "string \<times> string \<times> int"

subsection \<open>Python list primitives used by the dataset\<close>

text \<open>\<open>[x] * k\<close>: the list repeated \<open>k\<close> times, empty when \<open>k \<le> 0\<close>.\<close>

definition py_repeat :: "'a \<Rightarrow> int \<Rightarrow> 'a list" where
  "py_repeat x k = replicate (nat k) x"

text \<open>
  \<open>xs[:k]\<close>: for \<open>k \<ge> 0\<close> the first \<open>k\<close> elements (all of them when there are fewer);
  for \<open>k < 0\<close> the stop counts from the end, so the last \<open>-k\<close> elements are dropped.
\<close>

definition py_slice_to :: "'a list \<Rightarrow> int \<Rightarrow> 'a list" where
  "py_slice_to xs k =
     (if 0 \<le> k then take (nat k) xs else take (nat (int (length xs) + k)) xs)"

text \<open>
  \<open>xs[i]\<close>: negative indices count from the end; out of range is an IndexError,
  which is \<open>None\<close> here.
\<close>

definition py_index :: "'a list \<Rightarrow> int \<Rightarrow> 'a option" where
  "py_index xs i =
     (if 0 \<le> i \<and> i < int (length xs) then Some (xs ! nat i)
      else if i < 0 \<and> - int (length xs) \<le> i then Some (xs ! nat (int (length xs) + i))
      else None)"

section \<open>CustomDataset\<close>

text \<open>
  \<open>build_vocab\<close> collects the characters of every message and channel in a Python
  set and numbers the set's elements with \<open>enumerate\<close>. The order in which a set
  yields its elements is the interpreter's; it is the parameter \<open>iter_set\<close>, which
  lists the elements of a set.
\<close>

definition vocab_chars :: "datapoint list \<Rightarrow> char set" where
  "vocab_chars data =
     fold (\<lambda>(message, channel, _) vocab. (vocab \<union> set message) \<union> set channel) data {}"

definition build_vocab :: "(char set \<Rightarrow> char list) \<Rightarrow> datapoint list \<Rightarrow> (char \<rightharpoonup> int)" where
  "build_vocab iter_set data =
     fold (\<lambda>(idx, c) d. d(c \<mapsto> int idx + 1))
          (List.enumerate 0 (iter_set (vocab_chars data))) Map.empty"

text \<open>The contract of set iteration: every element once.\<close>

definition iterates :: "(char set \<Rightarrow> char list) \<Rightarrow> char set \<Rightarrow> bool" where
  "iterates iter_set S \<longleftrightarrow> set (iter_set S) = S \<and> distinct (iter_set S)"

record CustomDataset =
  data :: "datapoint list"
  max_length :: int
  vocab :: "char \<rightharpoonup> int"

definition CustomDataset_init ::
  "(char set \<Rightarrow> char list) \<Rightarrow> datapoint list \<Rightarrow> int \<Rightarrow> CustomDataset" where
  "CustomDataset_init iter_set d ml =
     \<lparr>data = d, max_length = ml, vocab = build_vocab iter_set d\<rparr>"

definition vocab_get :: "(char \<rightharpoonup> int) \<Rightarrow> char \<Rightarrow> int" where
  "vocab_get v c = (case v c of Some i \<Rightarrow> i | None \<Rightarrow> 0)"

definition encode :: "CustomDataset \<Rightarrow> string \<Rightarrow> int list" where
  "encode self text =
     (let encoded = map (vocab_get (vocab self)) text
      in encoded @ py_repeat 0 (max_length self - int (length encoded)))"

definition len_dataset :: "CustomDataset \<Rightarrow> nat" where
  "len_dataset self = length (data self)"

text \<open>\<open>__getitem__\<close>: \<open>None\<close> is the IndexError of \<open>self.data[idx]\<close>.\<close>

definition getitem :: "CustomDataset \<Rightarrow> int \<Rightarrow> (int list \<times> int) option" where
  "getitem self idx =
     (case py_index (data self) idx of
        None \<Rightarrow> None
      | Some (message, channel, label) \<Rightarrow>
          (let message_encoded = py_slice_to (encode self message) (max_length self);
               channel_encoded = py_slice_to (encode self channel) (max_length self)
           in Some (message_encoded @ channel_encoded, label)))"

section \<open>GetMaxLength\<close>

definition GetMaxLength :: "datapoint list \<Rightarrow> int" where
  "GetMaxLength d =
     fold (\<lambda>(message, _, _) max_len.
             if int (length message) > max_len then int (length message) else max_len) d 0"

section \<open>Exceptions\<close>

text \<open>
  The exceptions the module can meet, each with its message. \<open>LibraryError\<close> stands for
  any exception raised inside a library call (torch, the hyperparameter fetcher, the
  operating system) that derives from \<open>Exception\<close>; \<open>KeyboardInterrupt\<close> derives from
  \<open>BaseException\<close> only, so that \<open>except Exception\<close> does not catch it.
\<close>

datatype pyexc =
    AttributeError string
  | TypeError string
  | UnboundLocalError string
  | ValueError string
  | IndexError string
  | ZeroDivisionError string
  | OverflowError string
  | FileNotFoundError string
  | StopIteration string
  | LibraryError string
  | KeyboardInterrupt string

fun is_Exception :: "pyexc \<Rightarrow> bool" where
  "is_Exception (KeyboardInterrupt _) = False"
| "is_Exception _ = True"

text \<open>\<open>str(e)\<close>: the message.\<close>

fun str_exc :: "pyexc \<Rightarrow> string" where
  "str_exc (AttributeError m) = m"
| "str_exc (TypeError m) = m"
| "str_exc (UnboundLocalError m) = m"
| "str_exc (ValueError m) = m"
| "str_exc (IndexError m) = m"
| "str_exc (ZeroDivisionError m) = m"
| "str_exc (OverflowError m) = m"
| "str_exc (FileNotFoundError m) = m"
| "str_exc (StopIteration m) = m"
| "str_exc (LibraryError m) = m"
| "str_exc (KeyboardInterrupt m) = m"

fun class_name :: "pyexc \<Rightarrow> string" where
  "class_name (AttributeError _) = ''AttributeError''"
| "class_name (TypeError _) = ''TypeError''"
| "class_name (UnboundLocalError _) = ''UnboundLocalError''"
| "class_name (ValueError _) = ''ValueError''"
| "class_name (IndexError _) = ''IndexError''"
| "class_name (ZeroDivisionError _) = ''ZeroDivisionError''"
| "class_name (OverflowError _) = ''OverflowError''"
| "class_name (FileNotFoundError _) = ''FileNotFoundError''"
| "class_name (StopIteration _) = ''StopIteration''"
| "class_name (LibraryError _) = ''Exception''"
| "class_name (KeyboardInterrupt _) = ''KeyboardInterrupt''"

text \<open>
  \<open>traceback.format_exc()\<close>: the header, the stack frames and the line
  \<open>Class: message\<close>. The frames depend on file names and line numbers and are left
  out.
\<close>

definition format_exc :: "pyexc \<Rightarrow> string" where
  "format_exc e =
     ''Traceback (most recent call last):'' @ [CHR 0x0A] @ class_name e @ '': '' @ str_exc e
       @ [CHR 0x0A]"

subsection \<open>Calling a function through the instance\<close>

text \<open>
  \<open>self.f(a1, ..., an)\<close> looks \<open>f\<close> up in the class and calls it with \<open>self\<close> in front
  of the arguments. A function declared with the positional parameters \<open>params\<close> (none
  of them has a default in this module) accepts the call only when their number is
  \<open>n + 1\<close>; otherwise the call raises TypeError before the body runs.
\<close>

fun show_nat :: "nat \<Rightarrow> string" where
  "show_nat n =
     (if n < 10 then [''0123456789'' ! n]
      else show_nat (n div 10) @ [''0123456789'' ! (n mod 10)])"

definition bound_call :: "string \<Rightarrow> string list \<Rightarrow> nat \<Rightarrow> pyexc option" where
  "bound_call f params n =
     (if length params = Suc n then None
      else Some (TypeError (''Model.'' @ f @ ''() takes '' @ show_nat (length params)
             @ '' positional argument'' @ (if length params = 1 then [] else ''s'')
             @ '' but '' @ show_nat (Suc n) @ (if n = 0 then '' was'' else '' were'') @ '' given'')))"

text \<open>The \<open>def\<close> lines of the class \<open>Model\<close>.\<close>

definition GetHyp_params :: "string list" where
  "GetHyp_params = [''self'', ''name'']"

definition load_data_params :: "string list" where
  "load_data_params = [''data_folder'']"

definition GetMaxLength_params :: "string list" where
  "GetMaxLength_params = [''data'']"

definition SplitDataset_params :: "string list" where
  "SplitDataset_params = [''self'', ''data'', ''train_val_ratio'', ''max_length'']"

definition CreateTrainDataLoader_params :: "string list" where
  "CreateTrainDataLoader_params = [''self'']"

definition CreateValDataLoader_params :: "string list" where
  "CreateValDataLoader_params = [''self'']"

definition GetModelSize_params :: "string list" where
  "GetModelSize_params = [''model'']"

section \<open>Hyperparameters\<close>

text \<open>The values a hyperparameter can hold: \<open>str | int | float | bool\<close>, or \<open>None\<close>.\<close>

datatype hval = HStr string | HInt int | HFloat rat | HBool bool | HNone

text \<open>Python truth value, as \<open>if\<close> and the conditional expression test it.\<close>

fun truthy :: "hval \<Rightarrow> bool" where
  "truthy (HStr s) = (s \<noteq> [])"
| "truthy (HInt i) = (i \<noteq> 0)"
| "truthy (HFloat r) = (r \<noteq> 0)"
| "truthy (HBool b) = b"
| "truthy HNone = False"

text \<open>
  \<open>Hyperparameter\<close> and \<open>HyperparameterFetcher\<close> come from \<open>modelTypes.modules\<close>, which
  is not part of the sources. A hyperparameter is kept with the three positional
  arguments of its constructor; a fetcher is what its method \<open>GetHyp\<close> answers for a
  name.
\<close>

record Hyperparameter =
  hp_name :: string
  hp_display_name :: string
  hp_default :: hval

type_synonym fetcher = "string \<Rightarrow> pyexc + hval"

section \<open>Floating point\<close>

text \<open>
  A finite Python float is the rational number it denotes. The result of an arithmetic
  operation is the exact result rounded to the nearest double, ties to the even
  significand (IEEE 754 binary64: 53 significant bits, least exponent \<open>-1074\<close>).
  \<open>float_exponent x\<close> is the exponent of the last significant bit at the magnitude of
  \<open>x\<close>.
\<close>

definition round_half_even :: "rat \<Rightarrow> int" where
  "round_half_even y =
     (let f = \<lfloor>y\<rfloor>; d = y - of_int f
      in if d < 1 / 2 then f else if 1 / 2 < d then f + 1 else if even f then f else f + 1)"

definition float_exponent :: "rat \<Rightarrow> int" where
  "float_exponent x = max (bitlen \<lfloor>\<bar>x\<bar> * 2 ^ 1074\<rfloor> - 1127) (- 1074)"

definition scale2 :: "int \<Rightarrow> rat" where
  "scale2 e = (if 0 \<le> e then 2 ^ nat e else 1 / 2 ^ nat (- e))"

definition float_round :: "rat \<Rightarrow> rat" where
  "float_round x =
     (let e = float_exponent x in of_int (round_half_even (x / scale2 e)) * scale2 e)"

definition float_max :: rat where
  "float_max = (2 ^ 53 - 1) * 2 ^ 971"

text \<open>An operation whose rounded result exceeds the largest double yields infinity: \<open>None\<close>.\<close>

definition float_result :: "rat \<Rightarrow> rat option" where
  "float_result x = (let r = float_round x in if \<bar>r\<bar> \<le> float_max then Some r else None)"

text \<open>\<open>float(n)\<close> for an int, as the mixed operations convert it.\<close>

definition float_of_int :: "int \<Rightarrow> pyexc + rat" where
  "float_of_int n =
     (case float_result (of_int n) of
        None \<Rightarrow> Inl (OverflowError ''int too large to convert to float'')
      | Some r \<Rightarrow> Inr r)"

text \<open>\<open>int(x)\<close> for a float: truncation towards zero; infinity raises.\<close>

definition int_of_float :: "rat option \<Rightarrow> pyexc + int" where
  "int_of_float x =
     (case x of
        None \<Rightarrow> Inl (OverflowError ''cannot convert float infinity to integer'')
      | Some r \<Rightarrow> Inr (if 0 \<le> r then \<lfloor>r\<rfloor> else \<lceil>r\<rceil>))"

text \<open>\<open>a / b\<close> for ints: the quotient rounded once.\<close>

definition int_truediv :: "int \<Rightarrow> int \<Rightarrow> pyexc + rat" where
  "int_truediv a b =
     (if b = 0 then Inl (ZeroDivisionError ''division by zero'')
      else case float_result (of_int a / of_int b) of
             None \<Rightarrow> Inl (OverflowError ''integer division result too large for a float'')
           | Some r \<Rightarrow> Inr r)"

text \<open>
  \<open>round(x, 2)\<close>: for a finite float the decimal with two places nearest to the exact
  value of \<open>x\<close> (ties to even), converted back to the nearest double; infinity is
  returned as it is.
\<close>

definition py_round2 :: "rat option \<Rightarrow> pyexc + rat option" where
  "py_round2 x =
     (case x of
        None \<Rightarrow> Inr None
      | Some r \<Rightarrow>
         (case float_result (of_int (round_half_even (r * 100)) / 100) of
            None \<Rightarrow> Inl (OverflowError ''rounded value too large to represent'')
          | Some r' \<Rightarrow> Inr (Some r')))"

section \<open>Loading the data\<close>

text \<open>
  The file system as \<open>load_data\<close> reads it: a directory path gives its entries in the
  order of \<open>os.listdir\<close>, each with the lines \<open>readlines\<close> returns.
\<close>

type_synonym filesystem = "string \<rightharpoonup> (string \<times> string list) list"

definition endswith :: "string \<Rightarrow> string \<Rightarrow> bool" where
  "endswith s suffix \<longleftrightarrow>
     length suffix \<le> length s \<and> drop (length s - length suffix) s = suffix"

text \<open>The ASCII characters \<open>str.strip()\<close> removes.\<close>

definition is_space :: "char \<Rightarrow> bool" where
  "is_space c \<longleftrightarrow> (let n = of_char c :: nat in (9 \<le> n \<and> n \<le> 13) \<or> (28 \<le> n \<and> n \<le> 32))"

definition strip :: "string \<Rightarrow> string" where
  "strip s = rev (dropWhile is_space (rev (dropWhile is_space s)))"

definition is_digit :: "char \<Rightarrow> bool" where
  "is_digit c \<longleftrightarrow> (let n = of_char c :: nat in 48 \<le> n \<and> n \<le> 57)"

text \<open>
  The digits of an integer literal: decimal digits, single underscores allowed between
  two digits. \<open>None\<close> when the text is not of that form.
\<close>

fun digits_value :: "string \<Rightarrow> bool \<Rightarrow> nat \<Rightarrow> nat option" where
  "digits_value [] after_digit acc = (if after_digit then Some acc else None)"
| "digits_value (c # cs) after_digit acc =
     (if is_digit c then digits_value cs True (10 * acc + (of_char c - 48))
      else if c = CHR ''_'' \<and> after_digit then digits_value cs False acc
      else None)"

text \<open>\<open>int(s)\<close> for a string: surrounding whitespace, an optional sign, the digits.\<close>

definition py_int :: "string \<Rightarrow> pyexc + int" where
  "py_int s =
     (let t = strip s;
          (neg, body) = (case t of
                           c # cs \<Rightarrow> if c = CHR ''-'' then (True, cs)
                                     else if c = CHR ''+'' then (False, cs) else (False, t)
                         | [] \<Rightarrow> (False, t))
      in case digits_value body False 0 of
           None \<Rightarrow> Inl (ValueError (''invalid literal for int() with base 10: '' @ s))
         | Some n \<Rightarrow> Inr (if neg then - int n else int n))"

text \<open>The body of the \<open>with\<close> block: three lines of the file make one record.\<close>

definition read_record :: "string list \<Rightarrow> pyexc + datapoint" where
  "read_record lines =
     (case lines of
        l0 # l1 # l2 # _ \<Rightarrow>
          (case py_int (strip l2) of
             Inl e \<Rightarrow> Inl e
           | Inr output \<Rightarrow> Inr (strip l0, strip l1, output))
      | _ \<Rightarrow> Inl (IndexError ''list index out of range''))"

fun load_files :: "(string \<times> string list) list \<Rightarrow> datapoint list \<Rightarrow> pyexc + datapoint list" where
  "load_files [] acc = Inr acc"
| "load_files ((filename, lines) # rest) acc =
     (if endswith filename ''.txt''
      then (case read_record lines of
              Inl e \<Rightarrow> Inl e
            | Inr r \<Rightarrow> load_files rest (acc @ [r]))
      else load_files rest acc)"

definition load_data :: "filesystem \<Rightarrow> string \<Rightarrow> pyexc + datapoint list" where
  "load_data fs data_folder =
     (case fs data_folder of
        None \<Rightarrow> Inl (FileNotFoundError (''No such file or directory: '' @ data_folder))
      | Some entries \<Rightarrow> load_files entries [])"

section \<open>SplitDataset\<close>

text \<open>
  \<open>int(train_val_ratio * datapoints)\<close>, by the type of the hyperparameter: the product
  of a float and an int is a float product after \<open>float(datapoints)\<close>; an int or a bool
  multiplies as an int; a string is repeated and then parsed by \<open>int\<close>.
\<close>

definition train_amount_of :: "hval \<Rightarrow> nat \<Rightarrow> pyexc + int" where
  "train_amount_of train_val_ratio datapoints =
     (case train_val_ratio of
        HFloat r \<Rightarrow>
          (case float_of_int (int datapoints) of
             Inl e \<Rightarrow> Inl e
           | Inr n \<Rightarrow> int_of_float (float_result (r * n)))
      | HInt i \<Rightarrow> Inr (i * int datapoints)
      | HBool b \<Rightarrow> Inr (if b then int datapoints else 0)
      | HStr s \<Rightarrow> py_int (concat (replicate datapoints s))
      | HNone \<Rightarrow> Inl (TypeError ''unsupported operand type(s) for *: NoneType and int''))"

text \<open>
  \<open>random.sample(range(n), k)\<close> raises ValueError unless \<open>0 \<le> k \<le> n\<close>; otherwise its
  answer is the parameter \<open>sample n k\<close>. The contract of the library: \<open>k\<close> different
  elements of the population.
\<close>

definition random_sample :: "(nat \<Rightarrow> nat \<Rightarrow> nat list) \<Rightarrow> nat \<Rightarrow> int \<Rightarrow> pyexc + nat list" where
  "random_sample sample n k =
     (if 0 \<le> k \<and> k \<le> int n then Inr (sample n (nat k))
      else Inl (ValueError ''Sample larger than population or is negative''))"

definition samples :: "(nat \<Rightarrow> nat \<Rightarrow> nat list) \<Rightarrow> nat \<Rightarrow> nat \<Rightarrow> bool" where
  "samples sample n k \<longleftrightarrow>
     distinct (sample n k) \<and> set (sample n k) \<subseteq> {0 ..< n} \<and> length (sample n k) = k"

text \<open>The loops \<open>for i in indices: out.append(data[i])\<close>.\<close>

fun select :: "'a list \<Rightarrow> nat list \<Rightarrow> pyexc + 'a list" where
  "select xs [] = Inr []"
| "select xs (i # is) =
     (if i < length xs
      then (case select xs is of Inl e \<Rightarrow> Inl e | Inr ys \<Rightarrow> Inr (xs ! i # ys))
      else Inl (IndexError ''list index out of range''))"

definition split_indices ::
  "(nat \<Rightarrow> nat \<Rightarrow> nat list) \<Rightarrow> nat \<Rightarrow> int \<Rightarrow> pyexc + (nat list \<times> nat list)" where
  "split_indices sample datapoints train_amount =
     (case random_sample sample datapoints train_amount of
        Inl e \<Rightarrow> Inl e
      | Inr train_indices \<Rightarrow>
          Inr (train_indices, filter (\<lambda>i. i \<notin> set train_indices) [0 ..< datapoints]))"

definition SplitDataset ::
  "(char set \<Rightarrow> char list) \<Rightarrow> (nat \<Rightarrow> nat \<Rightarrow> nat list) \<Rightarrow> datapoint list \<Rightarrow> hval \<Rightarrow> int
   \<Rightarrow> pyexc + (CustomDataset \<times> CustomDataset \<times> int \<times> int)" where
  "SplitDataset iter_set sample d train_val_ratio ml =
     (let datapoints = length d in
      case train_amount_of train_val_ratio datapoints of
        Inl e \<Rightarrow> Inl e
      | Inr train_amount \<Rightarrow>
         (let val_amount = int datapoints - train_amount in
          case split_indices sample datapoints train_amount of
            Inl e \<Rightarrow> Inl e
          | Inr (train_indices, val_indices) \<Rightarrow>
             (case select d train_indices of
                Inl e \<Rightarrow> Inl e
              | Inr train_data \<Rightarrow>
                 (case select d val_indices of
                    Inl e \<Rightarrow> Inl e
                  | Inr val_data \<Rightarrow>
                      Inr (CustomDataset_init iter_set train_data ml,
                           CustomDataset_init iter_set val_data ml,
                           train_amount, val_amount)))))"

section \<open>Data loaders\<close>

text \<open>
  A \<open>DataLoader\<close> is kept with the arguments of its constructor. What torch does with
  them (checking them, batching, shuffling) is a parameter of the model; a batch is
  the list of the samples collated in it, each an encoded text and its label.
\<close>

record DataLoader =
  dl_dataset :: CustomDataset
  dl_batch_size :: hval
  dl_shuffle :: hval
  dl_num_workers :: hval
  dl_pin_memory :: hval
  dl_drop_last :: hval

type_synonym batch = "(int list \<times> int) list"

section \<open>Values shown and saved\<close>

text \<open>
  The value of a \<open>ModelData\<close> entry of \<open>Initialize\<close> is an int, a float or a string;
  \<open>metadata\<close> is the dictionary \<open>last_model_metadata\<close> of \<open>Save\<close>, without the two
  losses, which are values of torch.
\<close>

datatype mval = MInt int | MFloat "rat option" | MStr string

record metadata =
  md_training_os :: string
  md_architecture :: string
  md_torch_version :: string
  md_numpy_version :: string
  md_optimizer :: string
  md_loss_function :: string
  md_training_size :: int
  md_validation_size :: int
  md_dataset_length :: nat
  md_training_dataset_accuracy :: string
  md_validation_dataset_accuracy :: string

section \<open>The environment\<close>

text \<open>
  Everything the module takes from outside its own file. \<open>'t\<close> is the type of the
  values torch hands out (modules, optimizers, losses as Python floats); the model never
  looks inside them.
  \<^item> \<open>template_hyp_fetcher\<close>: the class \<open>ModelTemplate\<close> (from \<open>modelTypes.modules\<close>, not
    part of the sources) may define a class attribute \<open>hyp_fetcher\<close>, which the
    attribute lookup finds when the instance has none.
  \<^item> \<open>new_HyperparameterFetcher\<close>: the constructor of the fetcher.
  \<^item> \<open>files\<close>, \<open>iter_set\<close>, \<open>sample\<close>: the file system, the iteration order of a set,
    the answer of \<open>random.sample\<close>.
  \<^item> the constructors and operations of torch. \<open>train_step\<close> is the body of the
    training loop for one batch (from \<open>zero_grad\<close> to \<open>loss.item()\<close>): it returns the
    model, optimizer, scaler and scheduler as the step left them and the loss or the
    exception raised. \<open>eval_step\<close> is the body of the validation loop.
    \<open>forward_error\<close> and \<open>forward_row\<close> are the call \<open>model(inputs)\<close> in \<open>Save\<close>: whether
    it raises, and the scores it gives for one sample. \<open>batches\<close> is the iteration over
    a loader: the batches in order, or the exception raised when fetching one.
  \<^item> \<open>float_zero\<close>, \<open>float_add\<close>, \<open>float_div\<close>: the arithmetic on the losses;
    \<open>float_repr\<close>: \<open>str\<close> of a float.
  \<^item> the operating system and the libraries at saving: names and versions, the clock,
    \<open>os.path.exists\<close>, \<open>os.makedirs\<close>, \<open>json.dumps\<close>, \<open>torch.jit.script\<close> and
    \<open>torch.jit.save\<close>. What they write to disk is not tracked.
\<close>

record 't env =
  template_hyp_fetcher :: "fetcher option"
  new_HyperparameterFetcher :: "Hyperparameter list \<Rightarrow> pyexc + fetcher"
  files :: filesystem
  iter_set :: "char set \<Rightarrow> char list"
  sample :: "nat \<Rightarrow> nat \<Rightarrow> nat list"
  new_NeuralNetwork :: "int \<Rightarrow> hval \<Rightarrow> hval \<Rightarrow> hval \<Rightarrow> hval \<Rightarrow> hval \<Rightarrow> pyexc + 't"
  new_DataLoader :: "DataLoader \<Rightarrow> pyexc option"
  len_loader :: "DataLoader \<Rightarrow> nat"
  batches :: "DataLoader \<Rightarrow> (pyexc + batch) list"
  new_GradScaler :: "pyexc + 't"
  new_CrossEntropyLoss :: "pyexc + 't"
  new_Adam :: "'t \<Rightarrow> hval \<Rightarrow> pyexc + 't"
  new_OneCycleLR :: "'t \<Rightarrow> hval \<Rightarrow> nat \<Rightarrow> hval \<Rightarrow> pyexc + 't"
  parameters :: "'t \<Rightarrow> (nat list \<times> bool \<times> nat) list"
  type_name :: "'t \<Rightarrow> string"
  describe :: "'t \<Rightarrow> string"
  train_mode :: "'t \<Rightarrow> 't"
  eval_mode :: "'t \<Rightarrow> 't"
  train_step :: "'t \<Rightarrow> 't \<Rightarrow> 't \<Rightarrow> 't \<Rightarrow> 't \<Rightarrow> string \<Rightarrow> batch \<Rightarrow> ('t \<times> 't \<times> 't \<times> 't) \<times> (pyexc + 't)"
  eval_step :: "'t \<Rightarrow> 't \<Rightarrow> string \<Rightarrow> batch \<Rightarrow> pyexc + 't"
  forward_error :: "'t \<Rightarrow> string \<Rightarrow> int list list \<Rightarrow> pyexc option"
  forward_row :: "'t \<Rightarrow> int list \<Rightarrow> rat list"
  float_zero :: 't
  float_add :: "'t \<Rightarrow> 't \<Rightarrow> 't"
  float_div :: "'t \<Rightarrow> nat \<Rightarrow> 't"
  float_repr :: "rat option \<Rightarrow> string"
  os_name :: string
  torch_version :: string
  numpy_version :: string
  now :: string
  path_exists :: "hval \<Rightarrow> pyexc + bool"
  makedirs :: "hval \<Rightarrow> pyexc option"
  json_dumps :: "metadata \<Rightarrow> 't \<Rightarrow> 't \<Rightarrow> pyexc + string"
  jit_script :: "'t \<Rightarrow> pyexc + 't"
  jit_save :: "'t \<Rightarrow> hval \<Rightarrow> string \<Rightarrow> string \<Rightarrow> pyexc option"

section \<open>The class Model\<close>

text \<open>
  The attributes of an instance. \<open>None\<close> is an attribute that has not been assigned;
  the five attributes that \<open>__init__\<close> sets to Python's \<open>None\<close> are only ever written
  by the methods, so for them \<open>None\<close> is that value as well.
\<close>

record 't Model =
  hyperparameters :: "Hyperparameter list option"
  required_training_data :: "('t \<times> 't) option"
  additional_training_data :: "(string \<times> string \<times> int) list option"
  model_data :: "(string \<times> string \<times> mval) list option"
  device :: "string option"
  hyp_fetcher :: "fetcher option"
  error :: "string option"
  exception :: "string option"
  data_length :: "nat option"
  model :: "'t option"
  train_dataset :: "CustomDataset option"
  val_dataset :: "CustomDataset option"
  train_size :: "int option"
  val_size :: "int option"
  train_dataloader :: "DataLoader option"
  val_dataloader :: "DataLoader option"
  scaler :: "'t option"
  criterion :: "'t option"
  optimizer :: "'t option"
  scheduler :: "'t option"

text \<open>The object before \<open>__init__\<close> has run: no attribute.\<close>

definition blank :: "'t Model" where
  "blank = \<lparr>hyperparameters = None, required_training_data = None,
            additional_training_data = None, model_data = None, device = None,
            hyp_fetcher = None, error = None, exception = None, data_length = None,
            model = None, train_dataset = None, val_dataset = None, train_size = None,
            val_size = None, train_dataloader = None, val_dataloader = None, scaler = None,
            criterion = None, optimizer = None, scheduler = None\<rparr>"

subsection \<open>Statements\<close>

text \<open>
  A statement runs on the instance and either yields a value or raises; in both cases
  the assignments made so far stay.
\<close>

type_synonym ('s, 'a) stm = "'s \<Rightarrow> (pyexc + 'a) \<times> 's"

definition returnS :: "'a \<Rightarrow> ('s, 'a) stm" where
  "returnS x = (\<lambda>s. (Inr x, s))"

definition raiseS :: "pyexc \<Rightarrow> ('s, 'a) stm" where
  "raiseS e = (\<lambda>s. (Inl e, s))"

definition liftS :: "pyexc + 'a \<Rightarrow> ('s, 'a) stm" where
  "liftS r = (\<lambda>s. (r, s))"

definition bindS :: "('s, 'a) stm \<Rightarrow> ('a \<Rightarrow> ('s, 'b) stm) \<Rightarrow> ('s, 'b) stm" where
  "bindS m f = (\<lambda>s. case m s of (Inl e, s') \<Rightarrow> (Inl e, s') | (Inr x, s') \<Rightarrow> f x s')"

definition thenS :: "('s, unit) stm \<Rightarrow> ('s, 'b) stm \<Rightarrow> ('s, 'b) stm" where
  "thenS m k = bindS m (\<lambda>_. k)"

definition assignS :: "('s \<Rightarrow> 's) \<Rightarrow> ('s, unit) stm" where
  "assignS upd = (\<lambda>s. (Inr (), upd s))"

definition checkS :: "pyexc option \<Rightarrow> ('s, unit) stm" where
  "checkS r = (\<lambda>s. (case r of None \<Rightarrow> Inr () | Some e \<Rightarrow> Inl e, s))"

text \<open>Reading \<open>self.name\<close>.\<close>

definition attrS :: "string \<Rightarrow> ('s \<Rightarrow> 'a option) \<Rightarrow> ('s, 'a) stm" where
  "attrS name field =
     (\<lambda>s. case field s of
             None \<Rightarrow> (Inl (AttributeError (''Model object has no attribute '' @ name)), s)
           | Some x \<Rightarrow> (Inr x, s))"

text \<open>
  \<open>try: body except Exception as e: handler\<close>. An exception that is not an
  \<open>Exception\<close> passes through.
\<close>

definition try_except :: "('s, unit) stm \<Rightarrow> (pyexc \<Rightarrow> 's \<Rightarrow> 's) \<Rightarrow> ('s, unit) stm" where
  "try_except body handler =
     (\<lambda>s. case body s of
             (Inl e, s') \<Rightarrow> if is_Exception e then (Inr (), handler e s') else (Inl e, s')
           | (Inr u, s') \<Rightarrow> (Inr u, s'))"

text \<open>The handler of all three methods.\<close>

definition store_error :: "pyexc \<Rightarrow> 't Model \<Rightarrow> 't Model" where
  "store_error e self = self\<lparr>error := Some (str_exc e), exception := Some (format_exc e)\<rparr>"

subsection \<open>GetHyp and the constructor\<close>

definition GetHyp :: "'t env \<Rightarrow> string \<Rightarrow> ('t Model, hval) stm" where
  "GetHyp env name =
     thenS (checkS (bound_call ''GetHyp'' GetHyp_params 1))
       (\<lambda>self. case hyp_fetcher self of
                  Some f \<Rightarrow> (f name, self)
                | None \<Rightarrow>
                   (case template_hyp_fetcher env of
                      Some f \<Rightarrow> (f name, self)
                    | None \<Rightarrow>
                       (Inl (AttributeError ''Model object has no attribute hyp_fetcher''), self)))"

text \<open>
  \<open>__init__\<close> has no \<open>try\<close>: an exception leaves the constructor, and no instance is
  returned.
\<close>

definition Model_init :: "'t env \<Rightarrow> Hyperparameter list \<Rightarrow> pyexc + 't Model" where
  "Model_init env hyps =
     (case
        bindS (assignS (\<lambda>self. self\<lparr>hyperparameters := Some hyps\<rparr>)) (\<lambda>_.
        bindS (assignS (\<lambda>self. self\<lparr>required_training_data := None\<rparr>)) (\<lambda>_.
        bindS (assignS (\<lambda>self. self\<lparr>additional_training_data := None\<rparr>)) (\<lambda>_.
        bindS (assignS (\<lambda>self. self\<lparr>model_data := None\<rparr>)) (\<lambda>_.
        bindS (GetHyp env ''device'') (\<lambda>dev.
        bindS (assignS (\<lambda>self. self\<lparr>device := Some (if dev = HStr ''GPU'' then ''cuda'' else ''cpu'')\<rparr>)) (\<lambda>_.
        bindS (liftS (new_HyperparameterFetcher env hyps)) (\<lambda>f.
        bindS (assignS (\<lambda>self. self\<lparr>hyp_fetcher := Some f\<rparr>)) (\<lambda>_.
        bindS (assignS (\<lambda>self. self\<lparr>error := None\<rparr>)) (\<lambda>_.
        assignS (\<lambda>self. self\<lparr>exception := None\<rparr>)))))))))) blank
      of
        (Inl e, _) \<Rightarrow> Inl e
      | (Inr _, self) \<Rightarrow> Inr self)"

subsection \<open>Data loaders of the instance\<close>

definition CreateTrainDataLoader :: "'t env \<Rightarrow> ('t Model, unit) stm" where
  "CreateTrainDataLoader env =
     thenS (checkS (bound_call ''CreateTrainDataLoader'' CreateTrainDataLoader_params 0))
     (bindS (attrS ''train_dataset'' train_dataset) (\<lambda>ds.
      bindS (GetHyp env ''batch_size'') (\<lambda>bs.
      bindS (GetHyp env ''shuffle_train'') (\<lambda>sh.
      bindS (GetHyp env ''num_workers'') (\<lambda>nw.
      bindS (GetHyp env ''pin_memory'') (\<lambda>pm.
      bindS (GetHyp env ''drop_last'') (\<lambda>dl.
      thenS (checkS (new_DataLoader env
               \<lparr>dl_dataset = ds, dl_batch_size = bs, dl_shuffle = sh, dl_num_workers = nw,
                dl_pin_memory = pm, dl_drop_last = dl\<rparr>))
        (assignS (\<lambda>self. self\<lparr>train_dataloader :=
               Some \<lparr>dl_dataset = ds, dl_batch_size = bs, dl_shuffle = sh, dl_num_workers = nw,
                     dl_pin_memory = pm, dl_drop_last = dl\<rparr>\<rparr>)))))))))"

definition CreateValDataLoader :: "'t env \<Rightarrow> ('t Model, unit) stm" where
  "CreateValDataLoader env =
     thenS (checkS (bound_call ''CreateValDataLoader'' CreateValDataLoader_params 0))
     (bindS (attrS ''val_dataset'' val_dataset) (\<lambda>ds.
      bindS (GetHyp env ''batch_size'') (\<lambda>bs.
      bindS (GetHyp env ''shuffle_val'') (\<lambda>sh.
      bindS (GetHyp env ''num_workers'') (\<lambda>nw.
      bindS (GetHyp env ''pin_memory'') (\<lambda>pm.
      bindS (GetHyp env ''drop_last'') (\<lambda>dl.
      thenS (checkS (new_DataLoader env
               \<lparr>dl_dataset = ds, dl_batch_size = bs, dl_shuffle = sh, dl_num_workers = nw,
                dl_pin_memory = pm, dl_drop_last = dl\<rparr>))
        (assignS (\<lambda>self. self\<lparr>val_dataloader :=
               Some \<lparr>dl_dataset = ds, dl_batch_size = bs, dl_shuffle = sh, dl_num_workers = nw,
                     dl_pin_memory = pm, dl_drop_last = dl\<rparr>\<rparr>)))))))))"

subsection \<open>GetModelSize\<close>

text \<open>
  A parameter of a module is given by its shape, whether it requires a gradient and
  the size of an element. \<open>next\<close> on a module without parameters raises StopIteration.
\<close>

definition GetModelSize :: "'t env \<Rightarrow> 't \<Rightarrow> pyexc + (int \<times> int \<times> int \<times> rat)" where
  "GetModelSize env m =
     (let ps = parameters env m;
          total_params = (\<Sum>(shape, _, _) \<leftarrow> ps. int (prod_list shape));
          trainable_params = (\<Sum>(shape, requires_grad, _) \<leftarrow> ps.
                                 if requires_grad then int (prod_list shape) else 0);
          non_trainable_params = total_params - trainable_params
      in case ps of
           [] \<Rightarrow> Inl (StopIteration [])
         | (_, _, bytes_per_param) # _ \<Rightarrow>
            (case int_truediv (total_params * int bytes_per_param) (1024 ^ 2) of
               Inl e \<Rightarrow> Inl e
             | Inr model_size_mb \<Rightarrow>
                 Inr (total_params, trainable_params, non_trainable_params, model_size_mb)))"

subsection \<open>Initialize\<close>

text \<open>Reading a local variable of the function that no statement has assigned yet.\<close>

definition read_local :: "string \<Rightarrow> 'a option \<Rightarrow> pyexc + 'a" where
  "read_local name v =
     (case v of
        None \<Rightarrow> Inl (UnboundLocalError (''local variable '' @ name @ '' referenced before assignment''))
      | Some x \<Rightarrow> Inr x)"

text \<open>\<open>os.listdir\<close> and \<open>os.path.join\<close> take a string; any other value is a TypeError here.\<close>

definition load_data_from :: "'t env \<Rightarrow> hval \<Rightarrow> pyexc + datapoint list" where
  "load_data_from env folder =
     (case folder of
        HStr p \<Rightarrow> load_data (files env) p
      | _ \<Rightarrow> Inl (TypeError ''expected str, bytes or os.PathLike object''))"

text \<open>Lines 189 to 191: the data, their number, the maximum length.\<close>

definition Initialize_load :: "'t env \<Rightarrow> ('t Model, datapoint list \<times> int) stm" where
  "Initialize_load env =
     bindS (GetHyp env ''data_folder'') (\<lambda>folder.
     thenS (checkS (bound_call ''load_data'' load_data_params 1))
     (bindS (liftS (load_data_from env folder)) (\<lambda>d.
      thenS (assignS (\<lambda>self. self\<lparr>data_length := Some (length d)\<rparr>))
     (thenS (checkS (bound_call ''GetMaxLength'' GetMaxLength_params 1))
      (returnS (d, GetMaxLength d))))))"

text \<open>
  Lines 193 to 224. \<open>vocab_size\<close> is a local variable of \<open>Initialize\<close> (line 196 assigns
  it), and line 193 reads it first.
\<close>

definition Initialize_setup :: "'t env \<Rightarrow> datapoint list \<Rightarrow> int \<Rightarrow> ('t Model, unit) stm" where
  "Initialize_setup env d ml =
     bindS (liftS (read_local ''vocab_size'' None)) (\<lambda>vocab_size.
     bindS (GetHyp env ''embedding_dim'') (\<lambda>embedding_dim.
     bindS (GetHyp env ''hidden_dim'') (\<lambda>hidden_dim.
     bindS (GetHyp env ''classes'') (\<lambda>classes.
     bindS (GetHyp env ''dropout'') (\<lambda>dropout.
     bindS (GetHyp env ''max_length'') (\<lambda>hyp_max_length.
     bindS (liftS (new_NeuralNetwork env vocab_size embedding_dim hidden_dim classes dropout
                     hyp_max_length)) (\<lambda>m.
     thenS (assignS (\<lambda>self. self\<lparr>model := Some m\<rparr>))
    (bindS (GetHyp env ''train_val_ratio'') (\<lambda>ratio.
     thenS (checkS (bound_call ''SplitDataset'' SplitDataset_params 3))
    (bindS (liftS (SplitDataset (iter_set env) (sample env) d ratio ml))
       (\<lambda>(train_ds, val_ds, train_amount, val_amount).
     thenS (assignS (\<lambda>self. self\<lparr>train_dataset := Some train_ds, val_dataset := Some val_ds,
                                   train_size := Some train_amount, val_size := Some val_amount\<rparr>))
    (bindS (attrS ''train_dataset'' train_dataset) (\<lambda>tds.
     bindS (returnS (int (card (dom (vocab tds))) + 1)) (\<lambda>vocab_size.
     thenS (CreateTrainDataLoader env)
    (thenS (CreateValDataLoader env)
    (bindS (liftS (new_GradScaler env)) (\<lambda>sc.
     thenS (assignS (\<lambda>self. self\<lparr>scaler := Some sc\<rparr>))
    (bindS (liftS (new_CrossEntropyLoss env)) (\<lambda>cr.
     thenS (assignS (\<lambda>self. self\<lparr>criterion := Some cr\<rparr>))
    (bindS (attrS ''model'' model) (\<lambda>m.
     bindS (GetHyp env ''learning_rate'') (\<lambda>lr.
     bindS (liftS (new_Adam env m lr)) (\<lambda>opt.
     thenS (assignS (\<lambda>self. self\<lparr>optimizer := Some opt\<rparr>))
    (bindS (attrS ''optimizer'' optimizer) (\<lambda>opt.
     bindS (GetHyp env ''max_learning_rate'') (\<lambda>max_lr.
     bindS (attrS ''train_dataloader'' train_dataloader) (\<lambda>tdl.
     bindS (GetHyp env ''epochs'') (\<lambda>epochs.
     bindS (liftS (new_OneCycleLR env opt max_lr (len_loader env tdl) epochs)) (\<lambda>sch.
     thenS (assignS (\<lambda>self. self\<lparr>scheduler := Some sch\<rparr>))
    (bindS (attrS ''model'' model) (\<lambda>m.
     thenS (checkS (bound_call ''GetModelSize'' GetModelSize_params 1))
    (bindS (liftS (GetModelSize env m))
       (\<lambda>(total_params, trainable_params, non_trainable_params, model_size_mb).
     bindS (attrS ''train_size'' train_size) (\<lambda>ts.
     bindS (attrS ''val_size'' val_size) (\<lambda>vs.
     thenS (assignS (\<lambda>self. self\<lparr>additional_training_data := Some
              [(''train_size'', ''Train Size'', ts),
               (''val_size'', ''Val Size'', vs),
               (''max_length'', ''Max Length'', ml),
               (''vocab_size'', ''Vocab Size'', vocab_size)]\<rparr>))
    (bindS (attrS ''scaler'' scaler) (\<lambda>sc.
     bindS (attrS ''criterion'' criterion) (\<lambda>cr.
     bindS (attrS ''optimizer'' optimizer) (\<lambda>opt.
     bindS (attrS ''scheduler'' scheduler) (\<lambda>sch.
     assignS (\<lambda>self. self\<lparr>model_data := Some
              [(''total_params'', ''Total Parameters'', MInt total_params),
               (''trainable_params'', ''Trainable Parameters'', MInt trainable_params),
               (''non_trainable_params'', ''Non-trainable Parameters'', MInt non_trainable_params),
               (''model_size_mb'', ''Model Size (MB)'', MFloat (Some model_size_mb)),
               (''scaler'', ''Scaler'', MStr (type_name env sc)),
               (''criterion'', ''Criterion'', MStr (type_name env cr)),
               (''optimizer'', ''Optimizer'', MStr (type_name env opt)),
               (''scheduler'', ''Scheduler'', MStr (type_name env sch))]\<rparr>
       )))))))))))))))))))))))))))))))))))))))))"

definition Initialize_body :: "'t env \<Rightarrow> ('t Model, unit) stm" where
  "Initialize_body env = bindS (Initialize_load env) (\<lambda>(d, ml). Initialize_setup env d ml)"

definition Initialize :: "'t env \<Rightarrow> ('t Model, unit) stm" where
  "Initialize env = try_except (Initialize_body env) store_error"

subsection \<open>Train\<close>

text \<open>
  One pass of the training loop: the attributes are read in the order of the
  statements, then torch runs the step and the four objects are as the step left
  them, also when it raised.
\<close>

definition train_one :: "'t env \<Rightarrow> batch \<Rightarrow> ('t Model, 't) stm" where
  "train_one env b =
     bindS (attrS ''device'' device) (\<lambda>dev.
     bindS (attrS ''optimizer'' optimizer) (\<lambda>opt.
     bindS (attrS ''model'' model) (\<lambda>m.
     bindS (attrS ''criterion'' criterion) (\<lambda>cr.
     bindS (attrS ''scaler'' scaler) (\<lambda>sc.
     bindS (attrS ''scheduler'' scheduler) (\<lambda>sch.
       (case train_step env m opt cr sc sch dev b of
          ((m', opt', sc', sch'), r) \<Rightarrow>
             thenS (assignS (\<lambda>self. self\<lparr>model := Some m', optimizer := Some opt',
                                           scaler := Some sc', scheduler := Some sch'\<rparr>))
                   (liftS r))))))))"

fun train_batches :: "'t env \<Rightarrow> (pyexc + batch) list \<Rightarrow> 't \<Rightarrow> ('t Model, 't) stm" where
  "train_batches env [] running self = (Inr running, self)"
| "train_batches env (Inl e # rest) running self = (Inl e, self)"
| "train_batches env (Inr b # rest) running self =
     (case train_one env b self of
        (Inl e, self') \<Rightarrow> (Inl e, self')
      | (Inr loss, self') \<Rightarrow> train_batches env rest (float_add env running loss) self')"

definition val_one :: "'t env \<Rightarrow> batch \<Rightarrow> ('t Model, 't) stm" where
  "val_one env b =
     bindS (attrS ''device'' device) (\<lambda>dev.
     bindS (attrS ''model'' model) (\<lambda>m.
     bindS (attrS ''criterion'' criterion) (\<lambda>cr.
       liftS (eval_step env m cr dev b))))"

fun val_batches :: "'t env \<Rightarrow> (pyexc + batch) list \<Rightarrow> 't \<Rightarrow> ('t Model, 't) stm" where
  "val_batches env [] running self = (Inr running, self)"
| "val_batches env (Inl e # rest) running self = (Inl e, self)"
| "val_batches env (Inr b # rest) running self =
     (case val_one env b self of
        (Inl e, self') \<Rightarrow> (Inl e, self')
      | (Inr loss, self') \<Rightarrow> val_batches env rest (float_add env running loss) self')"

text \<open>\<open>running /= len(loader)\<close>.\<close>

definition mean_loss :: "'t env \<Rightarrow> 't \<Rightarrow> nat \<Rightarrow> pyexc + 't" where
  "mean_loss env running n =
     (if n = 0 then Inl (ZeroDivisionError ''float division by zero'')
      else Inr (float_div env running n))"

text \<open>Lines 233 to 235.\<close>

definition Train_reshuffle :: "'t env \<Rightarrow> ('t Model, unit) stm" where
  "Train_reshuffle env =
     bindS (GetHyp env ''shuffle_each_epoch'') (\<lambda>each_epoch.
       if truthy each_epoch
       then bindS (GetHyp env ''shuffle_train'') (\<lambda>shuffle_train.
            thenS (if truthy shuffle_train then CreateTrainDataLoader env else returnS ())
           (bindS (GetHyp env ''shuffle_val'') (\<lambda>shuffle_val.
              if truthy shuffle_val then CreateValDataLoader env else returnS ())))
       else returnS ())"

text \<open>Lines 238 to 268.\<close>

definition Train_epoch :: "'t env \<Rightarrow> ('t Model, unit) stm" where
  "Train_epoch env =
     bindS (attrS ''model'' model) (\<lambda>m.
     thenS (assignS (\<lambda>self. self\<lparr>model := Some (train_mode env m)\<rparr>))
    (bindS (attrS ''train_dataloader'' train_dataloader) (\<lambda>tdl.
     bindS (train_batches env (batches env tdl) (float_zero env)) (\<lambda>running_training_loss.
     bindS (attrS ''train_dataloader'' train_dataloader) (\<lambda>tdl.
     bindS (liftS (mean_loss env running_training_loss (len_loader env tdl))) (\<lambda>training_loss.
     bindS (attrS ''model'' model) (\<lambda>m.
     thenS (assignS (\<lambda>self. self\<lparr>model := Some (eval_mode env m)\<rparr>))
    (bindS (attrS ''device'' device) (\<lambda>dev.
     bindS (attrS ''val_dataloader'' val_dataloader) (\<lambda>vdl.
     bindS (val_batches env (batches env vdl) (float_zero env)) (\<lambda>running_validation_loss.
     bindS (attrS ''val_dataloader'' val_dataloader) (\<lambda>vdl.
     bindS (liftS (mean_loss env running_validation_loss (len_loader env vdl))) (\<lambda>validation_loss.
       assignS (\<lambda>self. self\<lparr>required_training_data := Some (training_loss, validation_loss)\<rparr>)
     )))))))))))))"

definition Train_body :: "'t env \<Rightarrow> ('t Model, unit) stm" where
  "Train_body env = thenS (Train_reshuffle env) (Train_epoch env)"

definition Train :: "'t env \<Rightarrow> ('t Model, unit) stm" where
  "Train env = try_except (Train_body env) store_error"

subsection \<open>Save\<close>

text \<open>
  \<open>torch.max(outputs.data, 1)\<close>: for every row the index of its first largest score;
  a row without scores raises.
\<close>

fun argmax_from :: "rat list \<Rightarrow> nat \<Rightarrow> nat \<Rightarrow> rat \<Rightarrow> nat" where
  "argmax_from [] i best_i best = best_i"
| "argmax_from (x # xs) i best_i best =
     (if best < x then argmax_from xs (Suc i) i x else argmax_from xs (Suc i) best_i best)"

definition argmax :: "rat list \<Rightarrow> pyexc + int" where
  "argmax row =
     (case row of
        [] \<Rightarrow> Inl (IndexError ''max(): Expected reduction dim 1 to have non-zero size'')
      | x # xs \<Rightarrow> Inr (int (argmax_from xs 1 0 x)))"

fun predictions :: "rat list list \<Rightarrow> pyexc + int list" where
  "predictions [] = Inr []"
| "predictions (row # rows) =
     (case argmax row of
        Inl e \<Rightarrow> Inl e
      | Inr p \<Rightarrow> (case predictions rows of Inl e \<Rightarrow> Inl e | Inr ps \<Rightarrow> Inr (p # ps)))"

text \<open>\<open>(predicted == labels).sum().item()\<close> for two tensors of the same length.\<close>

definition count_equal :: "int list \<Rightarrow> int list \<Rightarrow> int" where
  "count_equal predicted labels = int (length (filter (\<lambda>(p, l). p = l) (zip predicted labels)))"

text \<open>The body of an accuracy loop for one batch: the new \<open>total\<close> and \<open>correct\<close>.\<close>

definition count_one :: "'t env \<Rightarrow> 't \<Rightarrow> batch \<Rightarrow> int \<times> int \<Rightarrow> ('t Model, int \<times> int) stm" where
  "count_one env m b acc =
     bindS (attrS ''device'' device) (\<lambda>dev.
     thenS (checkS (forward_error env m dev (map fst b)))
    (bindS (liftS (predictions (map (forward_row env m) (map fst b)))) (\<lambda>predicted.
       returnS (fst acc + int (length (map snd b)),
                snd acc + count_equal predicted (map snd b)))))"

fun count_batches ::
  "'t env \<Rightarrow> 't \<Rightarrow> (pyexc + batch) list \<Rightarrow> int \<times> int \<Rightarrow> ('t Model, int \<times> int) stm" where
  "count_batches env m [] acc self = (Inr acc, self)"
| "count_batches env m (Inl e # rest) acc self = (Inl e, self)"
| "count_batches env m (Inr b # rest) acc self =
     (case count_one env m b acc self of
        (Inl e, self') \<Rightarrow> (Inl e, self')
      | (Inr acc', self') \<Rightarrow> count_batches env m rest acc' self')"

text \<open>\<open>round(100 * (correct / total), 2)\<close>.\<close>

definition accuracy :: "int \<Rightarrow> int \<Rightarrow> pyexc + rat option" where
  "accuracy correct_seen total_seen =
     (case int_truediv correct_seen total_seen of
        Inl e \<Rightarrow> Inl e
      | Inr q \<Rightarrow> py_round2 (float_result (100 * q)))"

text \<open>One accuracy of \<open>Save\<close>: the loop over a loader, then the percentage.\<close>

definition loader_accuracy ::
  "'t env \<Rightarrow> 't \<Rightarrow> string \<Rightarrow> ('t Model \<Rightarrow> DataLoader option) \<Rightarrow> ('t Model, rat option) stm" where
  "loader_accuracy env m name loader =
     bindS (attrS name loader) (\<lambda>dl.
     bindS (count_batches env m (batches env dl) (0, 0)) (\<lambda>(total_seen, correct_seen).
       liftS (accuracy correct_seen total_seen)))"

definition remove_newlines :: "string \<Rightarrow> string" where
  "remove_newlines s = filter (\<lambda>c. c \<noteq> CHR 0x0A) s"

definition Save_body :: "'t env \<Rightarrow> 't \<Rightarrow> 't \<times> 't \<Rightarrow> ('t Model, unit) stm" where
  "Save_body env m0 training_data =
     (let m = eval_mode env m0 in
      bindS (loader_accuracy env m ''train_dataloader'' train_dataloader) (\<lambda>acc_train.
      bindS (loader_accuracy env m ''val_dataloader'' val_dataloader) (\<lambda>acc_val.
      bindS (attrS ''optimizer'' optimizer) (\<lambda>opt.
      bindS (attrS ''criterion'' criterion) (\<lambda>cr.
      bindS (attrS ''train_size'' train_size) (\<lambda>ts.
      bindS (attrS ''val_size'' val_size) (\<lambda>vs.
      bindS (attrS ''data_length'' data_length) (\<lambda>n.
      bindS (liftS (json_dumps env
               \<lparr>md_training_os = os_name env,
                md_architecture = remove_newlines (describe env m),
                md_torch_version = torch_version env,
                md_numpy_version = numpy_version env,
                md_optimizer = remove_newlines (describe env opt),
                md_loss_function = remove_newlines (describe env cr),
                md_training_size = ts,
                md_validation_size = vs,
                md_dataset_length = n,
                md_training_dataset_accuracy = float_repr env acc_train @ ''%'',
                md_validation_dataset_accuracy = float_repr env acc_val @ ''%''\<rparr>
               (fst training_data) (snd training_data))) (\<lambda>md.
      bindS (GetHyp env ''model_path'') (\<lambda>path.
      bindS (liftS (path_exists env path)) (\<lambda>ex.
      thenS (if ex then returnS ()
             else bindS (GetHyp env ''model_path'') (\<lambda>path. checkS (makedirs env path)))
     (bindS (liftS (jit_script env m)) (\<lambda>scripted.
      bindS (GetHyp env ''model_path'') (\<lambda>path.
        checkS (jit_save env scripted path (now env @ ''.pt'') md)))))))))))))))"

definition Save :: "'t env \<Rightarrow> 't \<Rightarrow> 't \<times> 't \<Rightarrow> ('t Model, unit) stm" where
  "Save env m training_data = try_except (Save_body env m training_data) store_error"

section \<open>A concrete environment\<close>

text \<open>
  An environment to run the model on: ten record files in the directory \<open>data\<close>, five
  with label 0 and five with label 1; a fetcher that answers every name the module
  asks for, with a split ratio of 0.8; sets iterated in the order of the character
  codes; \<open>random.sample\<close> answering the last \<open>k\<close> indices, largest first; a torch whose
  objects are counters: a training step adds one to the model and to the optimizer.
\<close>

definition line :: "string \<Rightarrow> string" where
  "line s = s @ [CHR 0x0A]"

definition ten_files :: "(string \<times> string list) list" where
  "ten_files =
     [(''0.txt'', [line ''hello there'', line ''general'', line ''0'']),
      (''1.txt'', [line ''bonjour'', line ''general'', line ''1'']),
      (''2.txt'', [line ''good morning'', line ''chat'', line ''0'']),
      (''3.txt'', [line ''salut'', line ''chat'', line ''1'']),
      (''4.txt'', [line ''thanks'', line ''help'', line ''0'']),
      (''5.txt'', [line ''merci'', line ''help'', line ''1'']),
      (''6.txt'', [line ''see you'', line ''general'', line ''0'']),
      (''7.txt'', [line ''au revoir'', line ''general'', line ''1'']),
      (''8.txt'', [line ''yes'', line ''chat'', line ''0'']),
      (''9.txt'', [line ''oui'', line ''chat'', line ''1''])]"

definition ten_records :: "datapoint list" where
  "ten_records =
     [(''hello there'', ''general'', 0), (''bonjour'', ''general'', 1),
      (''good morning'', ''chat'', 0), (''salut'', ''chat'', 1),
      (''thanks'', ''help'', 0), (''merci'', ''help'', 1),
      (''see you'', ''general'', 0), (''au revoir'', ''general'', 1),
      (''yes'', ''chat'', 0), (''oui'', ''chat'', 1)]"

text \<open>The double nearest to 0.8.\<close>

definition ratio_08 :: rat where
  "ratio_08 = 3602879701896397 / 2 ^ 52"

definition example_fetcher :: fetcher where
  "example_fetcher name =
     (if name = ''data_folder'' \<or> name = ''data_path'' then Inr (HStr ''data'')
      else if name = ''model_path'' then Inr (HStr ''models'')
      else if name = ''device'' then Inr (HStr ''CPU'')
      else if name = ''train_val_ratio'' then Inr (HFloat ratio_08)
      else if name = ''shuffle_train'' \<or> name = ''shuffle_val'' \<or> name = ''shuffle_each_epoch''
        then Inr (HBool True)
      else if name = ''pin_memory'' \<or> name = ''drop_last'' then Inr (HBool False)
      else if name = ''batch_size'' then Inr (HInt 64)
      else if name = ''classes'' then Inr (HInt 2)
      else if name = ''num_workers'' then Inr (HInt 0)
      else Inr (HInt 1))"

definition example_env :: "nat env" where
  "example_env =
     \<lparr>template_hyp_fetcher = None,
      new_HyperparameterFetcher = (\<lambda>_. Inr example_fetcher),
      files = [''data'' \<mapsto> ten_files],
      iter_set = (\<lambda>S. filter (\<lambda>c. c \<in> S) (map char_of [0 ..< 256 :: nat])),
      sample = (\<lambda>n k. rev [n - k ..< n]),
      new_NeuralNetwork = (\<lambda>_ _ _ _ _ _. Inr 0),
      new_DataLoader = (\<lambda>_. None),
      len_loader = (\<lambda>dl. if data (dl_dataset dl) = [] then 0 else 1),
      batches = (\<lambda>dl. if data (dl_dataset dl) = [] then []
                       else [Inr (map (\<lambda>i. the (getitem (dl_dataset dl) (int i)))
                                      [0 ..< length (data (dl_dataset dl))])]),
      new_GradScaler = Inr 0,
      new_CrossEntropyLoss = Inr 0,
      new_Adam = (\<lambda>_ _. Inr 0),
      new_OneCycleLR = (\<lambda>_ _ _ _. Inr 0),
      parameters = (\<lambda>_. [([2, 3], True, 4)]),
      type_name = (\<lambda>_. ''Object''),
      describe = (\<lambda>_. ''Object()''),
      train_mode = (\<lambda>m. m),
      eval_mode = (\<lambda>m. m),
      train_step = (\<lambda>m opt cr sc sch dev b. ((Suc m, Suc opt, sc, sch), Inr 0)),
      eval_step = (\<lambda>m cr dev b. Inr 0),
      forward_error = (\<lambda>_ _ _. None),
      forward_row = (\<lambda>m row. [1 / 4, 3 / 4]),
      float_zero = 0,
      float_add = (\<lambda>a b. a + b),
      float_div = (\<lambda>a n. a div n),
      float_repr = (\<lambda>_. ''0.0''),
      os_name = ''posix'',
      torch_version = ''2'',
      numpy_version = ''2'',
      now = ''2024-01-01-00-00-00'',
      path_exists = (\<lambda>_. Inr True),
      makedirs = (\<lambda>_. None),
      json_dumps = (\<lambda>_ _ _. Inr ''{}''),
      jit_script = (\<lambda>m. Inr m),
      jit_save = (\<lambda>_ _ _ _. None)\<rparr>"

text \<open>
  The instance \<open>__init__\<close> is written to build: the hyperparameters, the device and the
  fetcher set, the five other attributes \<open>None\<close>.
\<close>

definition constructed :: "Hyperparameter list \<Rightarrow> fetcher \<Rightarrow> 't Model" where
  "constructed hyps f =
     blank\<lparr>hyperparameters := Some hyps, device := Some ''cpu'', hyp_fetcher := Some f\<rparr>"

text \<open>
  A fetcher that knows the names declared in the list \<open>hyperparameters\<close> of the module
  and raises for any other name.
\<close>

definition declared_names :: "string list" where
  "declared_names =
     [''data_path'', ''model_path'', ''device'', ''epochs'', ''batch_size'', ''classes'',
      ''learning_rate'', ''max_learning_rate'', ''train_val_ratio'', ''num_workers'',
      ''dropout'', ''patience'', ''shuffle_train'', ''shuffle_val'', ''shuffle_each_epoch'',
      ''pin_memory'', ''drop_last'', ''embedding_dim'', ''hidden_dim'']"

definition strict_fetcher :: fetcher where
  "strict_fetcher name =
     (if name \<in> set declared_names then example_fetcher name
      else Inl (LibraryError (''unknown hyperparameter '' @ name)))"

text \<open>The double nearest to one third, and three records to split.\<close>

definition one_third :: rat where
  "one_third = 6004799503160661 / 2 ^ 54"

definition three_records :: "datapoint list" where
  "three_records = [(''hello'', ''general'', 0), (''salut'', ''chat'', 1), (''yes'', ''chat'', 0)]"

text \<open>
  An instance as \<open>Initialize\<close> is written to leave it, on four records: three in the
  train set, one in the validation set, each dataset with a vocabulary of its own,
  numbered in the order its set happened to yield the characters.
\<close>

definition small_train :: CustomDataset where
  "small_train =
     \<lparr>data = [(''ab'', ''b'', 1), (''ba'', ''a'', 0), (''b'', ''ab'', 1)], max_length = 2,
      vocab = [CHR ''b'' \<mapsto> 1, CHR ''a'' \<mapsto> 2]\<rparr>"

definition small_val :: CustomDataset where
  "small_val =
     \<lparr>data = [(''aa'', ''b'', 1)], max_length = 2,
      vocab = [CHR ''a'' \<mapsto> 1, CHR ''b'' \<mapsto> 2]\<rparr>"

definition loader_of :: "CustomDataset \<Rightarrow> DataLoader" where
  "loader_of ds =
     \<lparr>dl_dataset = ds, dl_batch_size = HInt 64, dl_shuffle = HBool True,
      dl_num_workers = HInt 0, dl_pin_memory = HBool False, dl_drop_last = HBool False\<rparr>"

definition ready :: "nat Model" where
  "ready =
     (constructed [] example_fetcher)
       \<lparr>data_length := Some 4, model := Some 0,
        train_dataset := Some small_train, val_dataset := Some small_val,
        train_size := Some 3, val_size := Some 1,
        train_dataloader := Some (loader_of small_train),
        val_dataloader := Some (loader_of small_val),
        scaler := Some 0, criterion := Some 0, optimizer := Some 0, scheduler := Some 0\<rparr>"

section \<open>Notions used to state the properties\<close>

text \<open>A statement keeps an attribute when the attribute is the same after it, raised or not.\<close>

definition keeps :: "('s \<Rightarrow> 'a) \<Rightarrow> ('s, 'b) stm \<Rightarrow> bool" where
  "keeps f m \<longleftrightarrow> (\<forall>s. f (snd (m s)) = f s)"

text \<open>The answer of the fetcher for a name; \<open>HNone\<close> when the lookup raises.\<close>

definition hyp :: "'t env \<Rightarrow> 't Model \<Rightarrow> string \<Rightarrow> hval" where
  "hyp env self name = (case fst (GetHyp env name self) of Inr v \<Rightarrow> v | Inl _ \<Rightarrow> HNone)"

text \<open>The loader that \<open>CreateTrainDataLoader\<close> and \<open>CreateValDataLoader\<close> construct.\<close>

definition loader_for :: "'t env \<Rightarrow> 't Model \<Rightarrow> CustomDataset \<Rightarrow> string \<Rightarrow> DataLoader" where
  "loader_for env self ds shuffle_name =
     \<lparr>dl_dataset = ds, dl_batch_size = hyp env self ''batch_size'',
      dl_shuffle = hyp env self shuffle_name, dl_num_workers = hyp env self ''num_workers'',
      dl_pin_memory = hyp env self ''pin_memory'', dl_drop_last = hyp env self ''drop_last''\<rparr>"

text \<open>
  The samples a loader yields when every batch is fetched, and among them the number
  of those whose label is the index of the first largest score of the model.
\<close>

definition correct_predictions :: "'t env \<Rightarrow> 't \<Rightarrow> (int list \<times> int) list \<Rightarrow> nat" where
  "correct_predictions env m samples_seen =
     length (filter (\<lambda>(x, l). argmax (forward_row env m x) = Inr l) samples_seen)"

lemma fold_enum_update:
  "distinct xs \<Longrightarrow>
   (\<forall>i < length xs. fold (\<lambda>(idx, c) d. d(c \<mapsto> int idx + 1)) (List.enumerate n xs) m (xs ! i) = Some (int (n + i) + 1)) \<and>
   (\<forall>c. c \<notin> set xs \<longrightarrow> fold (\<lambda>(idx, c) d. d(c \<mapsto> int idx + 1)) (List.enumerate n xs) m c = m c)"
proof (induction xs arbitrary: n m)
  case Nil
  then show ?case by simp
next
  case (Cons x xs)
  let ?F = "\<lambda>n xs m. fold (\<lambda>(idx, c) d. d(c \<mapsto> int idx + 1)) (List.enumerate n xs) m"
  have step: "?F n (x # xs) m = ?F (Suc n) xs (m(x \<mapsto> int n + 1))" by simp
  from Cons.prems have d: "distinct xs" and nx: "x \<notin> set xs" by simp_all
  note IH = Cons.IH [OF d, of "Suc n" "m(x \<mapsto> int n + 1)"]
  show ?case
  proof (intro conjI allI impI)
    fix i assume "i < length (x # xs)"
    show "?F n (x # xs) m ((x # xs) ! i) = Some (int (n + i) + 1)"
    proof (cases i)
      case 0
      from IH nx have "?F (Suc n) xs (m(x \<mapsto> int n + 1)) x = (m(x \<mapsto> int n + 1)) x" by blast
      with 0 show ?thesis unfolding step by simp
    next
      case (Suc j)
      with \<open>i < length (x # xs)\<close> have "j < length xs" by simp
      with IH have "?F (Suc n) xs (m(x \<mapsto> int n + 1)) (xs ! j) = Some (int (Suc n + j) + 1)" by blast
      with Suc show ?thesis unfolding step by simp
    qed
  next
    fix c assume "c \<notin> set (x # xs)"
    then have "c \<notin> set xs" "c \<noteq> x" by auto
    moreover from IH \<open>c \<notin> set xs\<close> have "?F (Suc n) xs (m(x \<mapsto> int n + 1)) c = (m(x \<mapsto> int n + 1)) c" by blast
    ultimately show "?F n (x # xs) m c = m c" unfolding step by simp
  qed
qed

lemma vocab_chars_eq:
  "vocab_chars d = (\<Union>(m, c, l) \<in> set d. set m \<union> set c)"
proof -
  have "fold (\<lambda>(message, channel, _) vocab. (vocab \<union> set message) \<union> set channel) d V
        = V \<union> (\<Union>(m, c, l) \<in> set d. set m \<union> set c)" for V
    by (induction d arbitrary: V) auto
  then show ?thesis by (simp add: vocab_chars_def)
qed



lemma build_vocab_props:
  assumes "iterates order (vocab_chars d)"
  shows "dom (build_vocab order d) = vocab_chars d"
    and "ran (build_vocab order d) = {1 .. int (card (vocab_chars d))}"
    and "inj_on (build_vocab order d) (vocab_chars d)"
proof -
  let ?xs = "order (vocab_chars d)"
  let ?v = "build_vocab order d"
  from assms have sx: "set ?xs = vocab_chars d" and dx: "distinct ?xs"
    by (simp_all add: iterates_def)
  have at: "?v (?xs ! i) = Some (int i + 1)" if "i < length ?xs" for i
    using fold_enum_update [OF dx, of 0 Map.empty] that by (simp add: build_vocab_def)
  have out: "?v c = None" if "c \<notin> set ?xs" for c
    using fold_enum_update [OF dx, of 0 Map.empty] that by (simp add: build_vocab_def)
  have len: "length ?xs = card (vocab_chars d)"
    using distinct_card [OF dx] sx by simp
  show "dom ?v = vocab_chars d"
  proof (intro set_eqI iffI)
    fix c assume "c \<in> dom ?v"
    then show "c \<in> vocab_chars d" using out sx by (cases "c \<in> set ?xs") auto
  next
    fix c assume "c \<in> vocab_chars d"
    then obtain i where "i < length ?xs" "?xs ! i = c" using sx by (metis in_set_conv_nth)
    then show "c \<in> dom ?v" using at by auto
  qed
  show "ran ?v = {1 .. int (card (vocab_chars d))}"
  proof (intro set_eqI iffI)
    fix k assume "k \<in> ran ?v"
    then obtain c where vc: "?v c = Some k" by (auto simp: ran_def)
    then have "c \<in> set ?xs" using out by (cases "c \<in> set ?xs") auto
    then obtain i where i: "i < length ?xs" "?xs ! i = c" by (metis in_set_conv_nth)
    with at vc have "k = int i + 1" by auto
    with i len show "k \<in> {1 .. int (card (vocab_chars d))}" by simp
  next
    fix k assume "k \<in> {1 .. int (card (vocab_chars d))}"
    then have "nat (k - 1) < length ?xs" "int (nat (k - 1)) + 1 = k" using len by auto
    with at [of "nat (k - 1)"] show "k \<in> ran ?v" by (auto simp: ran_def)
  qed
  show "inj_on ?v (vocab_chars d)"
  proof (rule inj_onI)
    fix a b assume a: "a \<in> vocab_chars d" and b: "b \<in> vocab_chars d" and e: "?v a = ?v b"
    from a sx obtain i where i: "i < length ?xs" "?xs ! i = a" by (metis in_set_conv_nth)
    from b sx obtain j where j: "j < length ?xs" "?xs ! j = b" by (metis in_set_conv_nth)
    from at [OF i(1)] at [OF j(1)] e i j have "i = j" by simp
    with i j show "a = b" by simp
  qed
qed








text \<open>
  Claim C6. When the set yields each of its elements once, \<open>build_vocab\<close> gives every
  character of every message and channel an id different from 0, the ids in use are
  exactly \<open>1..N\<close> for the \<open>N\<close> distinct characters, different characters get
  different ids, and \<open>encode\<close> writes 0 for every character that is not in the
  vocabulary.
\<close>

theorem build_vocab_ids:
  assumes "iterates order (vocab_chars d)"
  shows "vocab_chars d = (\<Union>(m, c, l) \<in> set d. set m \<union> set c)
       \<and> (\<forall>c \<in> vocab_chars d. \<exists>i. build_vocab order d c = Some i \<and> i \<noteq> 0)
       \<and> ran (build_vocab order d) = {1 .. int (card (vocab_chars d))}
       \<and> inj_on (build_vocab order d) (vocab_chars d)
       \<and> (\<forall>c. c \<notin> vocab_chars d \<longrightarrow> vocab_get (build_vocab order d) c = 0)
       \<and> (\<forall>text i. i < length text \<and> text ! i \<notin> vocab_chars d \<longrightarrow>
            encode (CustomDataset_init order d ml) text ! i = 0)"
proof -
  note P = build_vocab_props [OF assms]
  have nz: "\<exists>i. build_vocab order d c = Some i \<and> i \<noteq> 0" if "c \<in> vocab_chars d" for c
  proof -
    from that P(1) obtain i where i: "build_vocab order d c = Some i" by blast
    then have "i \<in> ran (build_vocab order d)" by (auto simp: ran_def)
    with P(2) have "1 \<le> i" by simp
    with i show ?thesis by auto
  qed
  have unk: "vocab_get (build_vocab order d) c = 0" if "c \<notin> vocab_chars d" for c
  proof -
    from that P(1) have "build_vocab order d c = None" by blast
    then show ?thesis by (simp add: vocab_get_def)
  qed
  have enc: "encode (CustomDataset_init order d ml) tx ! i = 0"
    if "i < length tx \<and> tx ! i \<notin> vocab_chars d" for tx i
    using that unk by (simp add: encode_def CustomDataset_init_def Let_def nth_append)
  show ?thesis
  proof (intro conjI ballI allI impI)
    show "vocab_chars d = (\<Union>(m, c, l) \<in> set d. set m \<union> set c)" by (rule vocab_chars_eq)
    show "ran (build_vocab order d) = {1 .. int (card (vocab_chars d))}" by (rule P(2))
    show "inj_on (build_vocab order d) (vocab_chars d)" by (rule P(3))
  qed (rule nz unk enc, assumption)+
qed

theorem build_vocab_ids_witness:
  "iterates (\<lambda>_. ''ba'') (vocab_chars [(''ab'', ''b'', 1)])
   \<and> ran (build_vocab (\<lambda>_. ''ba'') [(''ab'', ''b'', 1)]) = {1 .. 2}
   \<and> vocab_get (build_vocab (\<lambda>_. ''ba'') [(''ab'', ''b'', 1)]) CHR ''z'' = 0
   \<and> encode (CustomDataset_init (\<lambda>_. ''ba'') [(''ab'', ''b'', 1)] 4) ''az'' ! 1 = 0"
proof -
  have vc: "vocab_chars [(''ab'', ''b'', 1)] = {CHR ''a'', CHR ''b''}"
    by (auto simp: vocab_chars_def)
  have it: "iterates (\<lambda>_. ''ba'') (vocab_chars [(''ab'', ''b'', 1)])"
    unfolding vc by (auto simp: iterates_def)
  have z: "CHR ''z'' \<notin> vocab_chars [(''ab'', ''b'', 1)]" unfolding vc by simp
  from build_vocab_ids [OF it, of 4] have
    r: "ran (build_vocab (\<lambda>_. ''ba'') [(''ab'', ''b'', 1)]) = {1 .. int (card (vocab_chars [(''ab'', ''b'', 1)]))}"
    and u: "\<forall>c. c \<notin> vocab_chars [(''ab'', ''b'', 1)] \<longrightarrow> vocab_get (build_vocab (\<lambda>_. ''ba'') [(''ab'', ''b'', 1)]) c = 0"
    and e: "\<forall>text i. i < length text \<and> text ! i \<notin> vocab_chars [(''ab'', ''b'', 1)] \<longrightarrow>
            encode (CustomDataset_init (\<lambda>_. ''ba'') [(''ab'', ''b'', 1)] 4) text ! i = 0"
    by blast+
  from e [rule_format, of 1 "''az''"] z
  have "encode (CustomDataset_init (\<lambda>_. ''ba'') [(''ab'', ''b'', 1)] 4) ''az'' ! 1 = 0" by simp
  moreover from r have "ran (build_vocab (\<lambda>_. ''ba'') [(''ab'', ''b'', 1)]) = {1 .. 2}"
    unfolding vc by simp
  ultimately show ?thesis using it u z by blast
qed



lemma rhe_floor_le: "\<lfloor>y\<rfloor> \<le> round_half_even y"
  by (simp add: round_half_even_def Let_def)

lemma rhe_le_floor1: "round_half_even y \<le> \<lfloor>y\<rfloor> + 1"
  by (simp add: round_half_even_def Let_def)

lemma rhe_of_int: "round_half_even (of_int k) = k"
  by (simp add: round_half_even_def Let_def)

lemma rhe_le_int: "y \<le> of_int K \<Longrightarrow> round_half_even y \<le> K"
proof (cases "y = of_int K")
  case True
  then show ?thesis by (simp add: rhe_of_int)
next
  case False
  assume "y \<le> of_int K"
  with False have "y < of_int K" by simp
  then have "\<lfloor>y\<rfloor> < K" by (simp add: floor_less_iff)
  with rhe_le_floor1 [of y] show ?thesis by linarith
qed

lemma int_le_rhe: "of_int K \<le> y \<Longrightarrow> K \<le> round_half_even y"
proof -
  assume "of_int K \<le> y"
  then have "K \<le> \<lfloor>y\<rfloor>" by (simp add: le_floor_iff)
  with rhe_floor_le [of y] show ?thesis by linarith
qed

lemma rhe_err: "\<bar>of_int (round_half_even y) - y\<bar> \<le> 1 / 2"
proof -
  have "of_int \<lfloor>y\<rfloor> \<le> y" "y < of_int \<lfloor>y\<rfloor> + 1" by linarith+
  then show ?thesis
    by (auto simp: round_half_even_def Let_def abs_le_iff)
qed

lemma scale2_pos: "0 < scale2 e"
  by (simp add: scale2_def)

lemma float_exponent_ge: "- 1074 \<le> float_exponent x"
  by (simp add: float_exponent_def)

lemma float_exponent_nonpos:
  assumes "\<bar>x\<bar> < 2 ^ 53"
  shows "float_exponent x \<le> 0"
proof -
  have "\<bar>x\<bar> * 2 ^ 1074 < 2 ^ 53 * 2 ^ 1074" using assms by simp
  also have "\<dots> = (2::rat) ^ 1127" by (simp flip: power_add)
  finally have "\<lfloor>\<bar>x\<bar> * 2 ^ 1074\<rfloor> < 2 ^ 1127"
    by (simp add: floor_less_iff)
  then have "bitlen \<lfloor>\<bar>x\<bar> * 2 ^ 1074\<rfloor> \<le> 1127"
    by (simp add: bitlen_le_iff_power)
  then show ?thesis by (simp add: float_exponent_def)
qed

lemma float_round_scaled:
  assumes "float_exponent x \<le> 0"
  shows "float_round x
         = of_int (round_half_even (x * 2 ^ nat (- float_exponent x))) / 2 ^ nat (- float_exponent x)"
  using assms by (simp add: float_round_def Let_def scale2_def)

lemma float_round_le_nat:
  assumes "0 \<le> x" "x \<le> of_nat k" "k < 2 ^ 53"
  shows "float_round x \<le> of_nat k"
proof -
  from assms have "\<bar>x\<bar> < 2 ^ 53"
    by (smt (verit) abs_of_nonneg of_nat_less_iff of_nat_numeral of_nat_power order_le_less_trans)
  then have e: "float_exponent x \<le> 0" by (rule float_exponent_nonpos)
  let ?m = "nat (- float_exponent x)"
  have "x * 2 ^ ?m \<le> of_nat k * 2 ^ ?m" using assms by simp
  also have "\<dots> = of_int (int k * 2 ^ ?m)" by simp
  finally have "round_half_even (x * 2 ^ ?m) \<le> int k * 2 ^ ?m" by (rule rhe_le_int)
  then have "(of_int (round_half_even (x * 2 ^ ?m)) :: rat) \<le> of_int (int k * 2 ^ ?m)"
    by (simp only: of_int_le_iff)
  then have "of_int (round_half_even (x * 2 ^ ?m)) / 2 ^ ?m \<le> (of_nat k :: rat)"
    by (simp add: field_simps)
  then show ?thesis by (simp only: float_round_scaled [OF e])
qed

lemma nat_le_float_round:
  assumes "of_nat k \<le> x" "x < 2 ^ 53"
  shows "of_nat k \<le> float_round x"
proof -
  from assms have "0 \<le> x" by (meson of_nat_0_le_iff order_trans)
  with assms have "\<bar>x\<bar> < 2 ^ 53" by simp
  then have e: "float_exponent x \<le> 0" by (rule float_exponent_nonpos)
  let ?m = "nat (- float_exponent x)"
  have "of_int (int k * 2 ^ ?m) = of_nat k * (2::rat) ^ ?m" by simp
  also have "\<dots> \<le> x * 2 ^ ?m" using assms by simp
  finally have "int k * 2 ^ ?m \<le> round_half_even (x * 2 ^ ?m)" by (rule int_le_rhe)
  then have "(of_int (int k * 2 ^ ?m) :: rat) \<le> of_int (round_half_even (x * 2 ^ ?m))"
    by (simp only: of_int_le_iff)
  then have "(of_nat k :: rat) \<le> of_int (round_half_even (x * 2 ^ ?m)) / 2 ^ ?m"
    by (simp add: field_simps)
  then show ?thesis by (simp only: float_round_scaled [OF e])
qed


lemma scale2_powi: "scale2 e = 2 powi e"
proof -
  have "inverse (2::rat) ^ n = 1 / 2 ^ n" for n
    by (simp add: inverse_eq_divide power_one_over)
  then show ?thesis by (simp add: scale2_def power_int_def)
qed

lemma scale2_diff: "0 \<le> a \<Longrightarrow> scale2 (a - int b) = 2 ^ nat a / 2 ^ b"
proof -
  assume a: "0 \<le> a"
  have "scale2 (a - int b) = (2::rat) powi a / 2 powi (int b)"
    unfolding scale2_powi by (rule power_int_diff) simp
  also have "\<dots> = 2 ^ nat a / 2 ^ b" using a by (simp add: power_int_def)
  finally show ?thesis .
qed

lemma float_exponent_eq:
  assumes "- 1074 \<le> e" and lo: "2 ^ 52 \<le> \<bar>x\<bar> / scale2 e" and hi: "\<bar>x\<bar> / scale2 e < 2 ^ 53"
  shows "float_exponent x = e"
proof -
  define k where "k = nat (e + 1074)"
  define P :: rat where "P = 2 ^ 1074"
  define z where "z = \<lfloor>\<bar>x\<bar> * P\<rfloor>"
  have Pp: "0 < P" by (simp add: P_def)
  have s: "scale2 e = 2 ^ k / P"
    using scale2_diff [of "e + 1074" 1074] assms(1) by (simp add: k_def P_def)
  have X: "\<bar>x\<bar> * P = (\<bar>x\<bar> / scale2 e) * 2 ^ k"
    unfolding s using Pp by simp
  have "(2::rat) ^ (52 + k) = 2 ^ 52 * 2 ^ k" by (rule power_add)
  also have "\<dots> \<le> (\<bar>x\<bar> / scale2 e) * 2 ^ k" using lo by (intro mult_right_mono) simp_all
  also have "\<dots> = \<bar>x\<bar> * P" by (rule X [symmetric])
  finally have "of_int ((2::int) ^ (52 + k)) \<le> \<bar>x\<bar> * P" by simp
  then have "(2::int) ^ (52 + k) \<le> z" unfolding z_def by (simp only: le_floor_iff)
  moreover have "nat (int (53 + k)) - 1 = 52 + k" by simp
  ultimately have ge: "int (53 + k) \<le> bitlen z"
    unfolding bitlen_ge_iff_power by simp
  have "\<bar>x\<bar> * P = (\<bar>x\<bar> / scale2 e) * 2 ^ k" by (rule X)
  also have "\<dots> < 2 ^ 53 * 2 ^ k" using hi by (intro mult_strict_right_mono) simp_all
  also have "\<dots> = (2::rat) ^ (53 + k)" by (rule power_add [symmetric])
  finally have "\<bar>x\<bar> * P < of_int ((2::int) ^ (53 + k))" by simp
  then have "z < 2 ^ (53 + k)" unfolding z_def by (simp only: floor_less_iff)
  moreover have "nat (int (53 + k)) = 53 + k" by simp
  ultimately have le: "bitlen z \<le> int (53 + k)"
    unfolding bitlen_le_iff_power by (simp only: of_nat_0_le_iff simp_thms)
  from ge le have "bitlen z = int (53 + k)" by simp
  then have "bitlen z - 1127 = e" using assms(1) by (simp add: k_def)
  then have "max (bitlen \<lfloor>\<bar>x\<bar> * 2 ^ 1074\<rfloor> - 1127) (- 1074) = e"
    using assms(1) unfolding z_def P_def by (simp only: max_def split: if_splits) simp
  then show ?thesis by (simp only: float_exponent_def)
qed

lemma float_round_err:
  assumes "0 \<le> x"
  shows "\<bar>float_round x - x\<bar> \<le> x / 2 ^ 53 + 1 / 2 ^ 1075"
proof -
  let ?e = "float_exponent x"
  let ?s = "scale2 ?e"
  let ?z = "\<lfloor>\<bar>x\<bar> * 2 ^ 1074\<rfloor>"
  have sp: "0 < ?s" by (rule scale2_pos)
  have "float_round x - x = (of_int (round_half_even (x / ?s)) - x / ?s) * ?s"
    using sp by (simp add: float_round_def Let_def field_simps)
  then have "\<bar>float_round x - x\<bar> = \<bar>of_int (round_half_even (x / ?s)) - x / ?s\<bar> * ?s"
    using sp by (simp add: abs_mult)
  also have "\<dots> \<le> (1 / 2) * ?s"
    using rhe_err [of "x / ?s"] sp by (intro mult_right_mono) simp_all
  finally have 1: "\<bar>float_round x - x\<bar> \<le> ?s / 2" by simp
  have 2: "?s \<le> x / 2 ^ 52 + 1 / 2 ^ 1074"
  proof (cases "?e = - 1074")
    case True
    then have "?s = 1 / 2 ^ 1074" by (simp add: scale2_def)
    with assms show ?thesis by simp
  next
    case False
    then have e: "?e = bitlen ?z - 1127" and b: "53 < bitlen ?z"
      by (simp_all add: float_exponent_def max_def split: if_splits)
    from b have zp: "0 < ?z" using bitlen_eq_zero_iff [of ?z] by (cases "0 < ?z") auto
    from bitlen_bounds [OF zp] have "(2::int) ^ nat (bitlen ?z - 1) \<le> ?z" by simp
    then have "(of_int ((2::int) ^ nat (bitlen ?z - 1)) :: rat) \<le> of_int ?z"
      by (simp only: of_int_le_iff)
    also have "\<dots> \<le> \<bar>x\<bar> * 2 ^ 1074" by (rule of_int_floor_le)
    finally have p: "(2::rat) ^ nat (bitlen ?z - 1) \<le> x * 2 ^ 1074" using assms by simp
    have "?s = scale2 ((bitlen ?z - 1) - int 1126)" unfolding e by simp
    also have "\<dots> = 2 ^ nat (bitlen ?z - 1) / 2 ^ 1126"
      using b by (intro scale2_diff) simp
    also have "\<dots> \<le> (x * 2 ^ 1074) / 2 ^ 1126" using p by (simp add: divide_right_mono)
    also have "\<dots> = x / 2 ^ 52" by simp
    finally show ?thesis by simp
  qed
  from 1 2 show ?thesis by simp
qed

lemma float_round_normal:
  assumes "- 1074 \<le> e" "2 ^ 52 \<le> \<bar>x\<bar> / scale2 e" "\<bar>x\<bar> / scale2 e < 2 ^ 53"
  shows "float_round x = of_int (round_half_even (x / scale2 e)) * scale2 e"
  using float_exponent_eq [OF assms] by (simp add: float_round_def)

lemma GetHyp_self: "snd (GetHyp env name self) = self"
  by (simp add: GetHyp_def thenS_def bindS_def checkS_def bound_call_def GetHyp_params_def
           split: option.splits)

lemma GetHyp_eq: "GetHyp env name self = (fst (GetHyp env name self), self)"
  using GetHyp_self [of env name self] by (metis prod.collapse)

lemma Initialize_setup_raises:
  "Initialize_setup env d ml s
   = (Inl (UnboundLocalError ''local variable vocab_size referenced before assignment''), s)"
  by (simp add: Initialize_setup_def bindS_def liftS_def read_local_def)

lemma Initialize_load_raises:
  "Initialize_load env self
   = (case fst (GetHyp env ''data_folder'' self) of
        Inl e \<Rightarrow> (Inl e, self)
      | Inr v \<Rightarrow> (Inl (TypeError ''Model.load_data() takes 1 positional argument but 2 were given''), self))"
proof -
  have c: "bound_call ''load_data'' load_data_params 1
           = Some (TypeError ''Model.load_data() takes 1 positional argument but 2 were given'')"
    by (simp add: bound_call_def load_data_params_def)
  show ?thesis
    unfolding Initialize_load_def bindS_def thenS_def checkS_def c
    by (subst GetHyp_eq) (simp split: sum.splits)
qed

text \<open>
  Claim C3. Unless the class \<open>ModelTemplate\<close> provides a fetcher as a class attribute,
  constructing a \<open>Model\<close> raises AttributeError for every list of hyperparameters:
  \<open>__init__\<close> calls \<open>GetHyp\<close>, which reads \<open>self.hyp_fetcher\<close>, before it assigns
  that attribute, and the exception leaves the constructor.
\<close>

theorem Model_init_raises:
  "template_hyp_fetcher env = None \<Longrightarrow>
   Model_init env hyps = Inl (AttributeError ''Model object has no attribute hyp_fetcher'')"
  by (simp add: Model_init_def bindS_def assignS_def GetHyp_def thenS_def checkS_def
                bound_call_def GetHyp_params_def blank_def)

theorem Model_init_raises_witness:
  "template_hyp_fetcher example_env = None
   \<and> Model_init example_env [\<lparr>hp_name = ''device'', hp_display_name = ''Device'', hp_default = HStr ''CPU''\<rparr>]
       = Inl (AttributeError ''Model object has no attribute hyp_fetcher'')"
proof -
  have h: "template_hyp_fetcher example_env = None" by (simp add: example_env_def)
  from h Model_init_raises [OF h] show ?thesis by simp
qed

text \<open>
  Claim C2. The statements of \<open>Initialize\<close> after the loading raise UnboundLocalError
  for \<open>vocab_size\<close> whatever was loaded, before the model is constructed. And
  \<open>Initialize\<close> itself, on every instance and in every environment in which the lookup
  of the hyperparameter does not raise an exception outside \<open>Exception\<close>, returns
  with \<open>error\<close> and \<open>exception\<close> set and every other attribute as before: when the
  lookup answers, the stored error is the TypeError of calling \<open>load_data\<close>, declared
  with one parameter, through the instance with one argument.
\<close>

theorem Initialize_never_completes:
  assumes "\<forall>e. fst (GetHyp env ''data_folder'' self) = Inl e \<longrightarrow> is_Exception e"
  shows "(\<forall>d ml s. Initialize_setup env d ml s
            = (Inl (UnboundLocalError ''local variable vocab_size referenced before assignment''), s))
       \<and> (\<exists>e. Initialize env self
              = (Inr (), self\<lparr>error := Some (str_exc e), exception := Some (format_exc e)\<rparr>))
       \<and> (\<forall>v. fst (GetHyp env ''data_folder'' self) = Inr v \<longrightarrow>
             Initialize env self
             = (Inr (), self\<lparr>error := Some ''Model.load_data() takes 1 positional argument but 2 were given'',
                              exception := Some (format_exc (TypeError
                                ''Model.load_data() takes 1 positional argument but 2 were given''))\<rparr>))"
proof (intro conjI allI impI)
  fix d ml and s :: "'a Model"
  show "Initialize_setup env d ml s
        = (Inl (UnboundLocalError ''local variable vocab_size referenced before assignment''), s)"
    by (rule Initialize_setup_raises)
next
  show "\<exists>e. Initialize env self
              = (Inr (), self\<lparr>error := Some (str_exc e), exception := Some (format_exc e)\<rparr>)"
  proof (cases "fst (GetHyp env ''data_folder'' self)")
    case (Inl e)
    with assms have "is_Exception e" by simp
    with Inl have "Initialize env self
        = (Inr (), self\<lparr>error := Some (str_exc e), exception := Some (format_exc e)\<rparr>)"
      by (simp add: Initialize_def Initialize_body_def try_except_def bindS_def
                    Initialize_load_raises store_error_def)
    then show ?thesis ..
  next
    case (Inr v)
    then have "Initialize env self
        = (Inr (), self\<lparr>error := Some (str_exc (TypeError ''Model.load_data() takes 1 positional argument but 2 were given'')),
                        exception := Some (format_exc (TypeError ''Model.load_data() takes 1 positional argument but 2 were given''))\<rparr>)"
      by (simp add: Initialize_def Initialize_body_def try_except_def bindS_def
                    Initialize_load_raises store_error_def)
    then show ?thesis ..
  qed
next
  fix v assume "fst (GetHyp env ''data_folder'' self) = Inr v"
  then show "Initialize env self
             = (Inr (), self\<lparr>error := Some ''Model.load_data() takes 1 positional argument but 2 were given'',
                              exception := Some (format_exc (TypeError
                                ''Model.load_data() takes 1 positional argument but 2 were given''))\<rparr>)"
    by (simp add: Initialize_def Initialize_body_def try_except_def bindS_def
                  Initialize_load_raises store_error_def)
qed


lemma GetHyp_example:
  "GetHyp env name (constructed hyps f) = (f name, constructed hyps f)"
  by (simp add: GetHyp_def thenS_def bindS_def checkS_def bound_call_def GetHyp_params_def
                constructed_def)

theorem Initialize_never_completes_witness:
  "Initialize example_env (constructed [] strict_fetcher)
     = (Inr (), (constructed [] strict_fetcher)
                  \<lparr>error := Some ''unknown hyperparameter data_folder'',
                   exception := Some (format_exc (LibraryError ''unknown hyperparameter data_folder''))\<rparr>)
   \<and> Initialize example_env (constructed [] example_fetcher)
     = (Inr (), (constructed [] example_fetcher)
                  \<lparr>error := Some ''Model.load_data() takes 1 positional argument but 2 were given'',
                   exception := Some (format_exc (TypeError
                      ''Model.load_data() takes 1 positional argument but 2 were given''))\<rparr>)
   \<and> Initialize_setup example_env ten_records 12 (constructed [] example_fetcher)
     = (Inl (UnboundLocalError ''local variable vocab_size referenced before assignment''),
        constructed [] example_fetcher)"
proof -
  let ?s = "constructed [] strict_fetcher :: nat Model"
  let ?t = "constructed [] example_fetcher :: nat Model"
  have gs: "fst (GetHyp example_env ''data_folder'' ?s)
            = Inl (LibraryError ''unknown hyperparameter data_folder'')"
    by (simp add: GetHyp_example strict_fetcher_def declared_names_def)
  have gt: "fst (GetHyp example_env ''data_folder'' ?t) = Inr (HStr ''data'')"
    by (simp add: GetHyp_example example_fetcher_def)
  have hs: "\<forall>e. fst (GetHyp example_env ''data_folder'' ?s) = Inl e \<longrightarrow> is_Exception e"
    unfolding gs by simp
  have ht: "\<forall>e. fst (GetHyp example_env ''data_folder'' ?t) = Inl e \<longrightarrow> is_Exception e"
    unfolding gt by simp
  from Initialize_never_completes [OF ht] gt
  have 1: "Initialize example_env ?t
     = (Inr (), ?t\<lparr>error := Some ''Model.load_data() takes 1 positional argument but 2 were given'',
                   exception := Some (format_exc (TypeError
                      ''Model.load_data() takes 1 positional argument but 2 were given''))\<rparr>)"
    and 2: "Initialize_setup example_env ten_records 12 ?t
     = (Inl (UnboundLocalError ''local variable vocab_size referenced before assignment''), ?t)"
    by blast+
  from Initialize_never_completes [OF hs]
  obtain e where e: "Initialize example_env ?s
        = (Inr (), ?s\<lparr>error := Some (str_exc e), exception := Some (format_exc e)\<rparr>)"
    by blast
  have "Initialize example_env ?s
        = (Inr (), ?s\<lparr>error := Some ''unknown hyperparameter data_folder'',
                   exception := Some (format_exc (LibraryError ''unknown hyperparameter data_folder''))\<rparr>)"
    using gs
    by (simp add: Initialize_def Initialize_body_def try_except_def bindS_def
                  Initialize_load_raises store_error_def)
  with 1 2 show ?thesis by simp
qed

text \<open>
  Claim C1, on the code. Constructing the instance already raises. On an instance
  with the fetcher set as \<open>__init__\<close> means to set it: the ten files are well formed
  (\<open>load_data\<close> called with the folder alone reads the ten records, five of each
  label) and the ratio is 0.8; yet
  \<open>Initialize\<close> stores the TypeError of its first statement and sets neither
  \<open>train_size\<close> nor \<open>val_size\<close>, and the \<open>Train\<close> call that follows stores an error as
  well.
\<close>

theorem Initialize_on_ten_files:
  "Model_init example_env [] = Inl (AttributeError ''Model object has no attribute hyp_fetcher'')
   \<and> load_data (files example_env) ''data'' = Inr ten_records
   \<and> length ten_records = 10
   \<and> length (filter (\<lambda>(m, c, l). l = 0) ten_records) = 5
   \<and> length (filter (\<lambda>(m, c, l). l = 1) ten_records) = 5
   \<and> fst (GetHyp example_env ''train_val_ratio'' (constructed [] example_fetcher)) = Inr (HFloat ratio_08)
   \<and> Initialize example_env (constructed [] example_fetcher)
     = (Inr (), (constructed [] example_fetcher)
                  \<lparr>error := Some ''Model.load_data() takes 1 positional argument but 2 were given'',
                   exception := Some (format_exc (TypeError
                      ''Model.load_data() takes 1 positional argument but 2 were given''))\<rparr>)
   \<and> train_size (snd (Initialize example_env (constructed [] example_fetcher))) = None
   \<and> val_size (snd (Initialize example_env (constructed [] example_fetcher))) = None
   \<and> error (snd (Train example_env (snd (Initialize example_env (constructed [] example_fetcher)))))
     = Some ''Model object has no attribute train_dataset''"
proof -
  let ?t = "constructed [] example_fetcher :: nat Model"
  have l: "load_data (files example_env) ''data'' = Inr ten_records"
    by (simp add: example_env_def load_data_def ten_files_def ten_records_def read_record_def
                  py_int_def strip_def is_space_def is_digit_def endswith_def line_def Let_def)
  have c: "length ten_records = 10"
          "length (filter (\<lambda>(m, c, l). l = 0) ten_records) = 5"
          "length (filter (\<lambda>(m, c, l). l = 1) ten_records) = 5"
    by (simp_all add: ten_records_def)
  have g: "fst (GetHyp example_env ''train_val_ratio'' ?t) = Inr (HFloat ratio_08)"
    by (simp add: GetHyp_example example_fetcher_def)
  have i: "Initialize example_env ?t
     = (Inr (), ?t\<lparr>error := Some ''Model.load_data() takes 1 positional argument but 2 were given'',
                   exception := Some (format_exc (TypeError
                      ''Model.load_data() takes 1 positional argument but 2 were given''))\<rparr>)"
    by (simp add: Initialize_def Initialize_body_def try_except_def bindS_def
                  Initialize_load_raises store_error_def GetHyp_example example_fetcher_def)
  have s: "train_size (snd (Initialize example_env ?t)) = None"
          "val_size (snd (Initialize example_env ?t)) = None"
    unfolding i by (simp_all add: constructed_def blank_def)
  have t: "error (snd (Train example_env (snd (Initialize example_env ?t))))
     = Some ''Model object has no attribute train_dataset''"
    unfolding i
    by (simp add: Train_def Train_body_def Train_reshuffle_def try_except_def bindS_def thenS_def
                  checkS_def GetHyp_def bound_call_def GetHyp_params_def
                  CreateTrainDataLoader_params_def CreateTrainDataLoader_def attrS_def
                  store_error_def constructed_def blank_def example_fetcher_def)
  have m: "Model_init example_env [] = Inl (AttributeError ''Model object has no attribute hyp_fetcher'')"
    by (simp add: Model_init_def bindS_def assignS_def GetHyp_def thenS_def checkS_def
                  bound_call_def GetHyp_params_def blank_def example_env_def)
  from m l c g i s t show ?thesis by simp
qed

text \<open>
  Claim C7. When the body of \<open>Initialize\<close>, \<open>Train\<close> or \<open>Save\<close> raises an exception
  that derives from \<open>Exception\<close>, the method returns normally, with the message in
  \<open>error\<close> and the formatted traceback in \<open>exception\<close>, on the instance as the body
  left it. No such exception ever leaves one of the three methods.
\<close>

theorem failures_are_stored:
  "(Initialize_body env self = (Inl e, self') \<and> is_Exception e \<longrightarrow>
      Initialize env self
      = (Inr (), self'\<lparr>error := Some (str_exc e), exception := Some (format_exc e)\<rparr>))
   \<and> (Train_body env self = (Inl e, self') \<and> is_Exception e \<longrightarrow>
      Train env self
      = (Inr (), self'\<lparr>error := Some (str_exc e), exception := Some (format_exc e)\<rparr>))
   \<and> (Save_body env m training_data self = (Inl e, self') \<and> is_Exception e \<longrightarrow>
      Save env m training_data self
      = (Inr (), self'\<lparr>error := Some (str_exc e), exception := Some (format_exc e)\<rparr>))
   \<and> (\<forall>x. fst (Initialize env self) = Inl x \<longrightarrow> \<not> is_Exception x)
   \<and> (\<forall>x. fst (Train env self) = Inl x \<longrightarrow> \<not> is_Exception x)
   \<and> (\<forall>x. fst (Save env m training_data self) = Inl x \<longrightarrow> \<not> is_Exception x)"
proof -
  have n: "\<forall>x. fst (try_except body store_error s) = Inl x \<longrightarrow> \<not> is_Exception x"
    for body :: "('a Model, unit) stm" and s
  proof -
    obtain r s' where b: "body s = (r, s')" by (cases "body s")
    show ?thesis using b by (cases r) (auto simp: try_except_def)
  qed
  show ?thesis
    unfolding Initialize_def Train_def Save_def
    by (intro conjI n) (simp_all add: try_except_def store_error_def)
qed

lemma constructed_unset:
  "train_dataset (constructed hyps f) = None"
  "train_dataloader (constructed hyps f) = None"
  by (simp_all add: constructed_def blank_def)

theorem failures_are_stored_witness:
  "Initialize example_env (constructed [] example_fetcher)
     = (Inr (), (constructed [] example_fetcher)
          \<lparr>error := Some ''Model.load_data() takes 1 positional argument but 2 were given'',
           exception := Some (format_exc (TypeError
              ''Model.load_data() takes 1 positional argument but 2 were given''))\<rparr>)
   \<and> Train example_env (constructed [] example_fetcher)
     = (Inr (), (constructed [] example_fetcher)
          \<lparr>error := Some ''Model object has no attribute train_dataset'',
           exception := Some (format_exc (AttributeError
              ''Model object has no attribute train_dataset''))\<rparr>)
   \<and> Save example_env 0 (0, 0) (constructed [] example_fetcher)
     = (Inr (), (constructed [] example_fetcher)
          \<lparr>error := Some ''Model object has no attribute train_dataloader'',
           exception := Some (format_exc (AttributeError
              ''Model object has no attribute train_dataloader''))\<rparr>)"
proof -
  let ?t = "constructed [] example_fetcher :: nat Model"
  let ?e1 = "TypeError ''Model.load_data() takes 1 positional argument but 2 were given''"
  let ?e2 = "AttributeError ''Model object has no attribute train_dataset''"
  let ?e3 = "AttributeError ''Model object has no attribute train_dataloader''"
  have b1: "Initialize_body example_env ?t = (Inl ?e1, ?t) \<and> is_Exception ?e1"
    by (simp add: Initialize_body_def bindS_def Initialize_load_raises GetHyp_example
                  example_fetcher_def)
  have b2: "Train_body example_env ?t = (Inl ?e2, ?t) \<and> is_Exception ?e2"
    by (simp add: Train_body_def Train_reshuffle_def bindS_def thenS_def checkS_def
                  GetHyp_example example_fetcher_def bound_call_def
                  CreateTrainDataLoader_params_def CreateTrainDataLoader_def attrS_def
                  constructed_unset)
  have b3: "Save_body example_env 0 (0, 0) ?t = (Inl ?e3, ?t) \<and> is_Exception ?e3"
    by (simp add: Save_body_def loader_accuracy_def bindS_def attrS_def constructed_unset
                  Let_def)
  from failures_are_stored [of example_env ?t ?e1 ?t] b1
  have 1: "Initialize example_env ?t
           = (Inr (), ?t\<lparr>error := Some (str_exc ?e1), exception := Some (format_exc ?e1)\<rparr>)"
    by blast
  from failures_are_stored [of example_env ?t ?e2 ?t] b2
  have 2: "Train example_env ?t
           = (Inr (), ?t\<lparr>error := Some (str_exc ?e2), exception := Some (format_exc ?e2)\<rparr>)"
    by blast
  from failures_are_stored [of example_env ?t ?e3 ?t 0 "(0, 0)"] b3
  have 3: "Save example_env 0 (0, 0) ?t
           = (Inr (), ?t\<lparr>error := Some (str_exc ?e3), exception := Some (format_exc ?e3)\<rparr>)"
    by blast
  from 1 2 3 show ?thesis by simp
qed

lemma float_max_ge: "2 ^ 53 \<le> float_max"
proof -
  have "(2::rat) ^ 53 * 1 \<le> 2 ^ 53 * (2 ^ 971 - 2 ^ 918)"
    by (intro mult_left_mono) simp_all
  also have "\<dots> = float_max"
    by (simp add: float_max_def algebra_simps flip: power_add)
  finally show ?thesis by simp
qed

lemma float_round_nonneg: "0 \<le> x \<Longrightarrow> x < 2 ^ 53 \<Longrightarrow> 0 \<le> float_round x"
  using nat_le_float_round [of 0 x] by simp

lemma float_result_small:
  assumes "0 \<le> x" "x \<le> of_nat k" "k < 2 ^ 53"
  shows "float_result x = Some (float_round x)"
proof -
  from assms have lt: "x < 2 ^ 53"
    by (smt (verit) of_nat_less_iff of_nat_numeral of_nat_power order_le_less_trans)
  have "float_round x \<le> of_nat k" by (rule float_round_le_nat [OF assms])
  also have "\<dots> \<le> (2::rat) ^ 53" using assms(3)
    by (metis less_imp_le of_nat_le_iff of_nat_numeral of_nat_power)
  finally have "float_round x \<le> float_max" using float_max_ge by simp
  moreover have "0 \<le> float_round x" by (rule float_round_nonneg [OF assms(1) lt])
  ultimately show ?thesis by (simp add: float_result_def)
qed

lemma float_round_nat: "k < 2 ^ 53 \<Longrightarrow> float_round (of_nat k) = of_nat k"
proof -
  assume k: "k < 2 ^ 53"
  then have "(of_nat k :: rat) < 2 ^ 53"
    by (metis of_nat_less_iff of_nat_numeral of_nat_power)
  then have "of_nat k \<le> float_round (of_nat k)" by (intro nat_le_float_round) simp_all
  moreover have "float_round (of_nat k) \<le> of_nat k" using k by (intro float_round_le_nat) simp_all
  ultimately show ?thesis by simp
qed

lemma train_amount_float:
  assumes "0 \<le> r" "r \<le> 99 / 100" "n < 2 ^ 53"
  shows "train_amount_of (HFloat r) n = Inr \<lfloor>float_round (r * of_nat n)\<rfloor>"
    and "\<lfloor>r * of_nat n\<rfloor> \<le> \<lfloor>float_round (r * of_nat n)\<rfloor>"
    and "\<lfloor>float_round (r * of_nat n)\<rfloor> \<le> \<lceil>r * of_nat n\<rceil>"
    and "0 \<le> \<lfloor>float_round (r * of_nat n)\<rfloor>"
    and "\<lfloor>float_round (r * of_nat n)\<rfloor> \<le> int n"
proof -
  let ?x = "r * of_nat n"
  have x0: "0 \<le> ?x" using assms(1) by simp
  have "?x \<le> 1 * of_nat n" using assms(2) by (intro mult_right_mono) simp_all
  then have xn: "?x \<le> of_nat n" by simp
  have fi: "float_of_int (int n) = Inr (of_nat n)"
    using float_result_small [of "of_nat n" n] assms(3)
    by (simp add: float_of_int_def float_round_nat)
  have fr: "float_result ?x = Some (float_round ?x)"
    by (rule float_result_small [OF x0 xn assms(3)])
  have xlt: "?x < 2 ^ 53" using xn assms(3)
    by (smt (verit) of_nat_less_iff of_nat_numeral of_nat_power order_le_less_trans)
  have f0: "0 \<le> float_round ?x" by (rule float_round_nonneg [OF x0 xlt])
  show "train_amount_of (HFloat r) n = Inr \<lfloor>float_round ?x\<rfloor>"
    using f0 by (simp add: train_amount_of_def fi fr int_of_float_def)
  show "0 \<le> \<lfloor>float_round ?x\<rfloor>" using f0 by simp
  have "float_round ?x \<le> of_nat n" by (rule float_round_le_nat [OF x0 xn assms(3)])
  then show "\<lfloor>float_round ?x\<rfloor> \<le> int n" by (simp add: floor_le_iff)
  have "of_nat (nat \<lfloor>?x\<rfloor>) \<le> ?x" using x0 by simp
  then have "of_nat (nat \<lfloor>?x\<rfloor>) \<le> float_round ?x" using xlt by (rule nat_le_float_round)
  then show "\<lfloor>?x\<rfloor> \<le> \<lfloor>float_round ?x\<rfloor>" using x0 by (simp add: le_floor_iff)
  have c: "\<lceil>?x\<rceil> \<le> int n" using xn by (simp add: ceiling_le_iff)
  have c0: "0 \<le> \<lceil>?x\<rceil>" using x0 by (simp add: le_ceiling_iff)
  have "?x \<le> of_nat (nat \<lceil>?x\<rceil>)" using c0 by (simp add: le_of_int_ceiling)
  moreover have "nat \<lceil>?x\<rceil> < 2 ^ 53" using c c0 assms(3) by linarith
  ultimately have "float_round ?x \<le> of_nat (nat \<lceil>?x\<rceil>)" using x0 by (intro float_round_le_nat)
  then have "float_round ?x \<le> of_int \<lceil>?x\<rceil>" using c0 by simp
  then show "\<lfloor>float_round ?x\<rfloor> \<le> \<lceil>?x\<rceil>" by (simp add: floor_le_iff)
qed


lemma select_map: "\<forall>i \<in> set is. i < length xs \<Longrightarrow> select xs is = Inr (map ((!) xs) is)"
  by (induction "is") simp_all

lemma complement_indices:
  assumes "distinct tr" "set tr \<subseteq> {0 ..< n}"
  shows "length (filter (\<lambda>i. i \<notin> set tr) [0 ..< n]) = n - length tr"
proof -
  have "length (filter (\<lambda>i. i \<notin> set tr) [0 ..< n]) = card ({i. i \<notin> set tr} \<inter> {0 ..< n})"
    by (simp add: distinct_length_filter)
  also have "{i. i \<notin> set tr} \<inter> {0 ..< n} = {0 ..< n} - set tr" by auto
  also have "card ({0 ..< n} - set tr) = card {0 ..< n} - card (set tr)"
    using assms(2) by (intro card_Diff_subset) simp_all
  also have "\<dots> = n - length tr" using assms(1) by (simp add: distinct_card)
  finally show ?thesis .
qed

lemma SplitDataset_result:
  assumes ta: "train_amount_of ratio (length d) = Inr ta" and r: "0 \<le> ta" "ta \<le> int (length d)"
      and smp: "samples smp (length d) (nat ta)"
  shows "SplitDataset it smp d ratio ml
         = Inr (CustomDataset_init it (map ((!) d) (smp (length d) (nat ta))) ml,
                CustomDataset_init it
                  (map ((!) d) (filter (\<lambda>i. i \<notin> set (smp (length d) (nat ta))) [0 ..< length d])) ml,
                ta, int (length d) - ta)"
proof -
  let ?tr = "smp (length d) (nat ta)"
  let ?vl = "filter (\<lambda>i. i \<notin> set ?tr) [0 ..< length d]"
  from smp have sub: "set ?tr \<subseteq> {0 ..< length d}" by (simp add: samples_def)
  have 1: "split_indices smp (length d) ta = Inr (?tr, ?vl)"
    using r by (simp add: split_indices_def random_sample_def)
  have 2: "select d ?tr = Inr (map ((!) d) ?tr)" using sub by (intro select_map) auto
  have 3: "select d ?vl = Inr (map ((!) d) ?vl)" by (intro select_map) auto
  show ?thesis by (simp add: SplitDataset_def Let_def ta 1 2 3)
qed

text \<open>
  Claim C5, as amended. For a float ratio \<open>r\<close> in \<open>[0, 0.99]\<close>, \<open>n\<close> records (fewer than
  \<open>2^53\<close>) and an answer of \<open>random.sample\<close> that meets its contract, \<open>SplitDataset\<close>
  returns; the train size is \<open>int(r * n)\<close> with the product rounded to a double, which
  is \<open>floor(r n)\<close>, or \<open>floor(r n) + 1\<close> when the rounded product is that integer; the
  validation size is \<open>n\<close> minus the train size; the two datasets have these sizes; the
  train indices are distinct, the validation indices are the other indices of
  \<open>0 .. n-1\<close> in order, and every index is in exactly one of the two lists.
\<close>

theorem SplitDataset_partitions:
  assumes "0 \<le> r" "r \<le> 99 / 100" "length d < 2 ^ 53"
      and "samples smp (length d) (nat \<lfloor>float_round (r * of_nat (length d))\<rfloor>)"
  shows "\<exists>train_ds val_ds ta va tr vl.
           SplitDataset it smp d (HFloat r) ml = Inr (train_ds, val_ds, ta, va)
         \<and> ta = \<lfloor>float_round (r * of_nat (length d))\<rfloor>
         \<and> (ta = \<lfloor>r * of_nat (length d)\<rfloor>
            \<or> ta = \<lfloor>r * of_nat (length d)\<rfloor> + 1 \<and> float_round (r * of_nat (length d)) = of_int ta)
         \<and> 0 \<le> ta \<and> ta \<le> int (length d)
         \<and> va = int (length d) - ta
         \<and> int (length (data train_ds)) = ta \<and> int (length (data val_ds)) = va
         \<and> split_indices smp (length d) ta = Inr (tr, vl)
         \<and> data train_ds = map ((!) d) tr \<and> data val_ds = map ((!) d) vl
         \<and> distinct tr \<and> distinct vl
         \<and> vl = filter (\<lambda>i. i \<notin> set tr) [0 ..< length d]
         \<and> set tr \<union> set vl = {0 ..< length d} \<and> set tr \<inter> set vl = {}"
proof -
  let ?n = "length d"
  let ?x = "r * of_nat ?n"
  let ?ta = "\<lfloor>float_round ?x\<rfloor>"
  let ?tr = "smp ?n (nat ?ta)"
  let ?vl = "filter (\<lambda>i. i \<notin> set ?tr) [0 ..< ?n]"
  note A = train_amount_float [OF assms(1-3)]
  from assms(4) have d: "distinct ?tr" and sub: "set ?tr \<subseteq> {0 ..< ?n}"
    and len: "length ?tr = nat ?ta"
    by (simp_all add: samples_def)
  have S: "SplitDataset it smp d (HFloat r) ml
         = Inr (CustomDataset_init it (map ((!) d) ?tr) ml,
                CustomDataset_init it (map ((!) d) ?vl) ml, ?ta, int ?n - ?ta)"
    by (rule SplitDataset_result [OF A(1) A(4) A(5) assms(4)])
  have fl: "?ta = \<lfloor>?x\<rfloor> \<or> ?ta = \<lfloor>?x\<rfloor> + 1 \<and> float_round ?x = of_int ?ta"
  proof (cases "?ta = \<lfloor>?x\<rfloor>")
    case True
    then show ?thesis by simp
  next
    case False
    with A(2) have gt: "\<lfloor>?x\<rfloor> < ?ta" by simp
    have "\<lceil>?x\<rceil> \<le> \<lfloor>?x\<rfloor> + 1" using ceiling_diff_floor_le_1 [of ?x] by linarith
    with A(3) gt have eq: "?ta = \<lfloor>?x\<rfloor> + 1" "?ta = \<lceil>?x\<rceil>" by linarith+
    have c0: "0 \<le> \<lceil>?x\<rceil>" using A(4) eq by simp
    have "?x \<le> of_int \<lceil>?x\<rceil>" by (rule le_of_int_ceiling)
    also have "\<dots> = of_nat (nat \<lceil>?x\<rceil>)" using c0 by simp
    finally have "?x \<le> of_nat (nat \<lceil>?x\<rceil>)" .
    moreover have "nat \<lceil>?x\<rceil> < 2 ^ 53" using A(5) eq assms(3) by linarith
    ultimately have "float_round ?x \<le> of_nat (nat \<lceil>?x\<rceil>)"
      using assms(1) by (intro float_round_le_nat) simp_all
    also have "of_nat (nat \<lceil>?x\<rceil>) = (of_int \<lceil>?x\<rceil> :: rat)" using c0 by simp
    finally have "float_round ?x \<le> of_int ?ta" using eq by simp
    moreover have "of_int ?ta \<le> float_round ?x" by (rule of_int_floor_le)
    ultimately show ?thesis using eq by simp
  qed
  have l1: "int (length (map ((!) d) ?tr)) = ?ta" using len A(4) by simp
  have l2: "int (length (map ((!) d) ?vl)) = int ?n - ?ta"
    using complement_indices [OF d sub] len A(4) A(5) by simp
  have si: "split_indices smp ?n ?ta = Inr (?tr, ?vl)"
    using A(4) A(5) by (simp add: split_indices_def random_sample_def)
  have u: "set ?tr \<union> set ?vl = {0 ..< ?n}" using sub by auto
  have i: "set ?tr \<inter> set ?vl = {}" by auto
  show ?thesis
    apply (rule exI [of _ "CustomDataset_init it (map ((!) d) ?tr) ml"])
    apply (rule exI [of _ "CustomDataset_init it (map ((!) d) ?vl) ml"])
    apply (rule exI [of _ ?ta])
    apply (rule exI [of _ "int ?n - ?ta"])
    apply (rule exI [of _ ?tr])
    apply (rule exI [of _ ?vl])
    apply (intro conjI S refl fl A(4) A(5) si d u i)
    using l1 l2 apply (simp_all add: CustomDataset_init_def)
    done
qed

lemma float_round_ratio_08: "float_round (ratio_08 * 10) = 8"
  unfolding ratio_08_def
  by (subst float_round_normal [of "- 49"]) code_simp+

lemma float_round_one_third: "float_round (one_third * 3) = 1"
  unfolding one_third_def
  by (subst float_round_normal [of "- 53"]) code_simp+

theorem SplitDataset_partitions_witness:
  "snd (snd (projr (SplitDataset (iter_set example_env) (sample example_env) ten_records
                      (HFloat ratio_08) 12))) = (8, 2)
   \<and> map (\<lambda>(m, c, l). m)
        (data (fst (projr (SplitDataset (iter_set example_env) (sample example_env) ten_records
                      (HFloat ratio_08) 12))))
     = [''oui'', ''yes'', ''au revoir'', ''see you'', ''merci'', ''thanks'', ''salut'', ''good morning'']
   \<and> map (\<lambda>(m, c, l). m)
        (data (fst (snd (projr (SplitDataset (iter_set example_env) (sample example_env) ten_records
                      (HFloat ratio_08) 12)))))
     = [''hello there'', ''bonjour'']"
proof -
  have n: "length ten_records = 10" by (simp add: ten_records_def)
  have fr: "float_round (ratio_08 * of_nat (length ten_records)) = 8"
    unfolding n using float_round_ratio_08 by simp
  have h1: "0 \<le> ratio_08" "ratio_08 \<le> 99 / 100" by (simp_all add: ratio_08_def)
  have h3: "length ten_records < 2 ^ 53" unfolding n by simp
  have smp: "sample example_env 10 8 = [9, 8, 7, 6, 5, 4, 3, 2]"
    by (simp add: example_env_def upt_rec)
  have h4: "samples (sample example_env) (length ten_records)
              (nat \<lfloor>float_round (ratio_08 * of_nat (length ten_records))\<rfloor>)"
    unfolding fr unfolding n by (simp add: samples_def smp)
  from SplitDataset_partitions [OF h1 h3 h4, of "iter_set example_env" 12]
  obtain train_ds val_ds ta va tr vl where
    S: "SplitDataset (iter_set example_env) (sample example_env) ten_records (HFloat ratio_08) 12
        = Inr (train_ds, val_ds, ta, va)"
    and ta: "ta = \<lfloor>float_round (ratio_08 * of_nat (length ten_records))\<rfloor>"
    and va: "va = int (length ten_records) - ta"
    and si: "split_indices (sample example_env) (length ten_records) ta = Inr (tr, vl)"
    and dt: "data train_ds = map ((!) ten_records) tr" "data val_ds = map ((!) ten_records) vl"
    by blast
  from ta fr have ta8: "ta = 8" by simp
  with va n have va2: "va = 2" by simp
  from si have "tr = [9, 8, 7, 6, 5, 4, 3, 2]" "vl = [0, 1]"
    unfolding ta8 n by (simp_all add: split_indices_def random_sample_def smp upt_rec)
  with dt have "map (\<lambda>(m, c, l). m) (data train_ds)
      = [''oui'', ''yes'', ''au revoir'', ''see you'', ''merci'', ''thanks'', ''salut'', ''good morning'']"
    "map (\<lambda>(m, c, l). m) (data val_ds) = [''hello there'', ''bonjour'']"
    by (simp_all add: ten_records_def)
  with S ta8 va2 show ?thesis by simp
qed

text \<open>
  Claim C5 as stated, refuted: with three records and the ratio \<open>0.3333333333333333\<close>
  (the double nearest to one third), \<open>floor(r n)\<close> is 0, but the float product
  \<open>r * 3\<close> rounds to \<open>1.0\<close>, so the train size is 1 and the validation size 2.
\<close>

theorem SplitDataset_floor_counterexample:
  "0 \<le> one_third \<and> one_third \<le> 99 / 100
   \<and> length three_records = 3
   \<and> \<lfloor>one_third * 3\<rfloor> = 0
   \<and> train_amount_of (HFloat one_third) (length three_records) = Inr 1
   \<and> snd (snd (projr (SplitDataset (iter_set example_env) (sample example_env) three_records
                        (HFloat one_third) 5))) = (1, 2)"
proof -
  have n: "length three_records = 3" by (simp add: three_records_def)
  have h: "0 \<le> one_third" "one_third \<le> 99 / 100" by (simp_all add: one_third_def)
  have f: "\<lfloor>one_third * 3\<rfloor> = 0" by code_simp
  have t: "train_amount_of (HFloat one_third) (length three_records) = Inr 1"
    using train_amount_float(1) [OF h, of 3] float_round_one_third by (simp add: n)
  have s: "samples (sample example_env) (length three_records) (nat 1)"
    by (simp add: samples_def example_env_def n upt_rec)
  have "SplitDataset (iter_set example_env) (sample example_env) three_records (HFloat one_third) 5
        = Inr (CustomDataset_init (iter_set example_env)
                 (map ((!) three_records) (sample example_env (length three_records) (nat 1))) 5,
               CustomDataset_init (iter_set example_env)
                 (map ((!) three_records)
                    (filter (\<lambda>i. i \<notin> set (sample example_env (length three_records) (nat 1)))
                       [0 ..< length three_records])) 5,
               1, int (length three_records) - 1)"
    by (rule SplitDataset_result [OF t _ _ s]) (simp_all add: n)
  then show ?thesis using h n f t by simp
qed

lemma keepsI: "(\<And>s. f (snd (m s)) = f s) \<Longrightarrow> keeps f m"
  by (simp add: keeps_def)

lemma keepsD: "keeps f m \<Longrightarrow> f (snd (m s)) = f s"
  by (simp add: keeps_def)

lemma keeps_returnS: "keeps f (returnS x)"
  by (simp add: keeps_def returnS_def)

lemma keeps_liftS: "keeps f (liftS r)"
  by (simp add: keeps_def liftS_def)

lemma keeps_checkS: "keeps f (checkS r)"
  by (simp add: keeps_def checkS_def)

lemma keeps_attrS: "keeps f (attrS name field)"
  by (simp add: keeps_def attrS_def split: option.splits)

lemma keeps_GetHyp: "keeps f (GetHyp env name)"
  by (simp add: keeps_def GetHyp_self)

lemma keeps_assignS: "(\<And>s. f (upd s) = f s) \<Longrightarrow> keeps f (assignS upd)"
  by (simp add: keeps_def assignS_def)

lemma keeps_bindS: "keeps f m \<Longrightarrow> (\<And>x. keeps f (k x)) \<Longrightarrow> keeps f (bindS m k)"
  unfolding keeps_def bindS_def
proof (intro allI)
  fix s assume m: "\<forall>s. f (snd (m s)) = f s" and k: "\<And>x. \<forall>s. f (snd (k x s)) = f s"
  obtain r s' where ms: "m s = (r, s')" by (cases "m s")
  with m have s': "f s' = f s" by (metis snd_conv)
  show "f (snd (case m s of (Inl e, s') \<Rightarrow> (Inl e, s') | (Inr x, s') \<Rightarrow> k x s')) = f s"
    using ms s' k by (cases r) simp_all
qed

lemma keeps_thenS: "keeps f m \<Longrightarrow> keeps f k \<Longrightarrow> keeps f (thenS m k)"
  unfolding thenS_def by (rule keeps_bindS)

lemma keeps_if: "keeps f a \<Longrightarrow> keeps f b \<Longrightarrow> keeps f (if c then a else b)"
  by simp

lemma keeps_try_except:
  "keeps f body \<Longrightarrow> (\<And>e s. f (handler e s) = f s) \<Longrightarrow> keeps f (try_except body handler)"
  unfolding keeps_def try_except_def
proof (intro allI)
  fix s assume b: "\<forall>s. f (snd (body s)) = f s" and h: "\<And>e s. f (handler e s) = f s"
  obtain r s' where bs: "body s = (r, s')" by (cases "body s")
  with b have "f s' = f s" by (metis snd_conv)
  then show "f (snd (case body s of
                       (Inl e, s') \<Rightarrow> if is_Exception e then (Inr (), handler e s') else (Inl e, s')
                     | (Inr u, s') \<Rightarrow> (Inr u, s'))) = f s"
    using bs h by (cases r) simp_all
qed

lemma keeps_case_step:
  "(\<And>a b c d r. keeps f (k a b c d r)) \<Longrightarrow>
   keeps f (case p of ((a, b, c, d), r) \<Rightarrow> k a b c d r)"
  by (simp split: prod.splits)

lemmas keeps_intros =
  keeps_returnS keeps_liftS keeps_checkS keeps_attrS keeps_GetHyp keeps_bindS keeps_thenS keeps_if

lemma keeps_train_one:
  assumes "\<And>s a b c d. f (s\<lparr>model := a, optimizer := b, scaler := c, scheduler := d\<rparr>) = f s"
  shows "keeps f (train_one env b)"
  unfolding train_one_def
  by (intro keeps_intros keeps_case_step keeps_assignS assms)

lemma keeps_train_batches:
  assumes "\<And>s a b c d. f (s\<lparr>model := a, optimizer := b, scaler := c, scheduler := d\<rparr>) = f s"
  shows "keeps f (train_batches env bs running)"
proof (induction bs arbitrary: running)
  case Nil
  show ?case by (simp add: keeps_def)
next
  case (Cons x bs)
  show ?case
  proof (cases x)
    case (Inl e)
    then show ?thesis by (simp add: keeps_def)
  next
    case (Inr b)
    show ?thesis
    proof (rule keepsI)
      fix s
      obtain r s' where t: "train_one env b s = (r, s')" by (cases "train_one env b s")
      have s': "f s' = f s" using keepsD [OF keeps_train_one [of f env b], OF assms, of s] t by simp
      show "f (snd (train_batches env (x # bs) running s)) = f s"
        using t s' keepsD [OF Cons.IH] Inr by (cases r) simp_all
    qed
  qed
qed

lemma keeps_val_one: "keeps f (val_one env b)"
  unfolding val_one_def by (intro keeps_intros)

lemma keeps_val_batches: "keeps f (val_batches env bs running)"
proof (induction bs arbitrary: running)
  case Nil
  show ?case by (simp add: keeps_def)
next
  case (Cons x bs)
  show ?case
  proof (cases x)
    case (Inl e)
    then show ?thesis by (simp add: keeps_def)
  next
    case (Inr b)
    show ?thesis
    proof (rule keepsI)
      fix s
      obtain r s' where t: "val_one env b s = (r, s')" by (cases "val_one env b s")
      have s': "f s' = f s" using keepsD [OF keeps_val_one [of f env b], of s] t by simp
      show "f (snd (val_batches env (x # bs) running s)) = f s"
        using t s' keepsD [OF Cons.IH] Inr by (cases r) simp_all
    qed
  qed
qed

lemma keeps_Train_epoch:
  assumes "\<And>s a b c d. f (s\<lparr>model := a, optimizer := b, scaler := c, scheduler := d\<rparr>) = f s"
      and "\<And>s a. f (s\<lparr>model := a\<rparr>) = f s"
      and "\<And>s a. f (s\<lparr>required_training_data := a\<rparr>) = f s"
  shows "keeps f (Train_epoch env)"
  unfolding Train_epoch_def
  by (intro keeps_intros keeps_assignS keeps_train_batches keeps_val_batches assms)

lemma keeps_CreateTrainDataLoader:
  assumes "\<And>s a. f (s\<lparr>train_dataloader := a\<rparr>) = f s"
  shows "keeps f (CreateTrainDataLoader env)"
  unfolding CreateTrainDataLoader_def
  by (intro keeps_intros keeps_assignS assms)

lemma keeps_CreateValDataLoader:
  assumes "\<And>s a. f (s\<lparr>val_dataloader := a\<rparr>) = f s"
  shows "keeps f (CreateValDataLoader env)"
  unfolding CreateValDataLoader_def
  by (intro keeps_intros keeps_assignS assms)

lemma keeps_Train_reshuffle:
  assumes "\<And>s a. f (s\<lparr>train_dataloader := a\<rparr>) = f s"
      and "\<And>s a. f (s\<lparr>val_dataloader := a\<rparr>) = f s"
  shows "keeps f (Train_reshuffle env)"
  unfolding Train_reshuffle_def
  by (intro keeps_intros keeps_CreateTrainDataLoader keeps_CreateValDataLoader assms)

lemma Train_keeps_train_dataset: "keeps train_dataset (Train env)"
  unfolding Train_def Train_body_def
  by (intro keeps_try_except keeps_thenS keeps_Train_reshuffle keeps_Train_epoch)
     (simp_all add: store_error_def)

lemma Train_keeps_val_dataset: "keeps val_dataset (Train env)"
  unfolding Train_def Train_body_def
  by (intro keeps_try_except keeps_thenS keeps_Train_reshuffle keeps_Train_epoch)
     (simp_all add: store_error_def)


lemma bind_GetHyp:
  "bindS (GetHyp env name) k self
   = (case fst (GetHyp env name self) of Inl e \<Rightarrow> (Inl e, self) | Inr v \<Rightarrow> k v self)"
  by (subst bindS_def, subst GetHyp_eq) (simp split: sum.splits)

lemma hyp_Inr: "fst (GetHyp env name self) = Inr v \<Longrightarrow> hyp env self name = v"
  by (simp add: hyp_def)

lemma GetHyp_fetcher:
  "hyp_fetcher s = hyp_fetcher self \<Longrightarrow> fst (GetHyp env name s) = fst (GetHyp env name self)"
  by (simp add: GetHyp_def thenS_def bindS_def checkS_def bound_call_def GetHyp_params_def
           split: option.splits)

lemma hyp_fetcher_eq: "hyp_fetcher s = hyp_fetcher self \<Longrightarrow> hyp env s name = hyp env self name"
  by (simp add: hyp_def GetHyp_fetcher [of s self])

lemma loader_for_eq:
  "hyp_fetcher s = hyp_fetcher self \<Longrightarrow> loader_for env s ds n = loader_for env self ds n"
  by (simp add: loader_for_def hyp_fetcher_eq [of s self])

lemma CreateTrainDataLoader_ok:
  assumes "CreateTrainDataLoader env self = (Inr (), self')"
  shows "\<exists>ds. train_dataset self = Some ds
            \<and> self' = self\<lparr>train_dataloader := Some (loader_for env self ds ''shuffle_train'')\<rparr>"
  using assms
  unfolding CreateTrainDataLoader_def thenS_def bind_GetHyp loader_for_def
  by (auto simp: bindS_def checkS_def attrS_def assignS_def bound_call_def
                 CreateTrainDataLoader_params_def hyp_def
           split: option.splits sum.splits)

lemma CreateValDataLoader_ok:
  assumes "CreateValDataLoader env self = (Inr (), self')"
  shows "\<exists>ds. val_dataset self = Some ds
            \<and> self' = self\<lparr>val_dataloader := Some (loader_for env self ds ''shuffle_val'')\<rparr>"
  using assms
  unfolding CreateValDataLoader_def thenS_def bind_GetHyp loader_for_def
  by (auto simp: bindS_def checkS_def attrS_def assignS_def bound_call_def
                 CreateValDataLoader_params_def hyp_def
           split: option.splits sum.splits)


lemma Train_reshuffle_ok:
  assumes "Train_reshuffle env self = (Inr (), self')"
  shows "self' = self
           \<lparr>train_dataloader :=
              (if truthy (hyp env self ''shuffle_each_epoch'') \<and> truthy (hyp env self ''shuffle_train'')
               then Some (loader_for env self (the (train_dataset self)) ''shuffle_train'')
               else train_dataloader self),
            val_dataloader :=
              (if truthy (hyp env self ''shuffle_each_epoch'') \<and> truthy (hyp env self ''shuffle_val'')
               then Some (loader_for env self (the (val_dataset self)) ''shuffle_val'')
               else val_dataloader self)\<rparr>"
proof (cases "fst (GetHyp env ''shuffle_each_epoch'' self)")
  case (Inl e)
  with assms show ?thesis by (simp add: Train_reshuffle_def bind_GetHyp)
next
  case each: (Inr each_epoch)
  note he = hyp_Inr [OF each]
  show ?thesis
  proof (cases "truthy each_epoch")
    case False
    with assms each he show ?thesis
      by (simp add: Train_reshuffle_def bind_GetHyp returnS_def)
  next
    case True
    show ?thesis
    proof (cases "fst (GetHyp env ''shuffle_train'' self)")
      case (Inl e)
      with assms each True show ?thesis by (simp add: Train_reshuffle_def bind_GetHyp)
    next
      case st: (Inr shuffle_train)
      note ht = hyp_Inr [OF st]
      define step1 where
        "step1 = (if truthy shuffle_train then CreateTrainDataLoader env else returnS ()) self"
      define rest where
        "rest = bindS (GetHyp env ''shuffle_val'')
                  (\<lambda>shuffle_val. if truthy shuffle_val then CreateValDataLoader env else returnS ())"
      from assms have "(if truthy each_epoch
              then bindS (GetHyp env ''shuffle_train'') (\<lambda>shuffle_train.
                     thenS (if truthy shuffle_train then CreateTrainDataLoader env else returnS ())
                       rest)
              else returnS ()) self = (Inr (), self')"
        unfolding Train_reshuffle_def bind_GetHyp each rest_def by simp
      with True have "bindS (GetHyp env ''shuffle_train'') (\<lambda>shuffle_train.
                     thenS (if truthy shuffle_train then CreateTrainDataLoader env else returnS ())
                       rest) self = (Inr (), self')"
        by simp
      then have run: "thenS (if truthy shuffle_train then CreateTrainDataLoader env else returnS ())
                       rest self = (Inr (), self')"
        unfolding bind_GetHyp st by simp
      obtain r1 s1 where s1: "step1 = (r1, s1)" by (cases step1)
      from run s1 have r1: "r1 = Inr ()" and rest: "rest s1 = (Inr (), self')"
        by (auto simp: thenS_def bindS_def step1_def split: sum.splits)
      have s1_eq: "s1 = self\<lparr>train_dataloader :=
              (if truthy shuffle_train
               then Some (loader_for env self (the (train_dataset self)) ''shuffle_train'')
               else train_dataloader self)\<rparr>"
      proof (cases "truthy shuffle_train")
        case True
        with s1 r1 have "CreateTrainDataLoader env self = (Inr (), s1)" by (simp add: step1_def)
        from CreateTrainDataLoader_ok [OF this] True show ?thesis by auto
      next
        case False
        with s1 show ?thesis by (simp add: step1_def returnS_def)
      qed
      have f1: "hyp_fetcher s1 = hyp_fetcher self" unfolding s1_eq by simp
      have v1: "val_dataset s1 = val_dataset self" "val_dataloader s1 = val_dataloader self"
        unfolding s1_eq by simp_all
      show ?thesis
      proof (cases "fst (GetHyp env ''shuffle_val'' s1)")
        case (Inl e)
        with rest show ?thesis by (simp add: rest_def bind_GetHyp)
      next
        case sv: (Inr shuffle_val)
        have hv: "hyp env self ''shuffle_val'' = shuffle_val"
          using hyp_Inr [OF sv] hyp_fetcher_eq [OF f1] by simp
        have self'_eq: "self' = s1\<lparr>val_dataloader :=
              (if truthy shuffle_val
               then Some (loader_for env self (the (val_dataset self)) ''shuffle_val'')
               else val_dataloader self)\<rparr>"
        proof (cases "truthy shuffle_val")
          case True
          with rest sv have "CreateValDataLoader env s1 = (Inr (), self')"
            by (simp add: rest_def bind_GetHyp)
          from CreateValDataLoader_ok [OF this] True show ?thesis
            by (auto simp: v1 loader_for_eq [OF f1])
        next
          case False
          with rest sv have "self' = s1" by (simp add: rest_def bind_GetHyp returnS_def)
          with False show ?thesis by (simp add: v1 [symmetric])
        qed
        show ?thesis unfolding self'_eq s1_eq using True he ht hv by simp
      qed
    qed
  qed
qed

lemma Train_loaders:
  "train_dataloader (snd (Train env self)) = train_dataloader (snd (Train_reshuffle env self))"
  "val_dataloader (snd (Train env self)) = val_dataloader (snd (Train_reshuffle env self))"
proof -
  obtain r s1 where rs: "Train_reshuffle env self = (r, s1)" by (cases "Train_reshuffle env self")
  have k1: "keeps train_dataloader (try_except (Train_epoch env) store_error)"
    by (intro keeps_try_except keeps_Train_epoch) (simp_all add: store_error_def)
  have k2: "keeps val_dataloader (try_except (Train_epoch env) store_error)"
    by (intro keeps_try_except keeps_Train_epoch) (simp_all add: store_error_def)
  have T: "Train env self
           = (case r of
                Inl e \<Rightarrow> if is_Exception e then (Inr (), store_error e s1) else (Inl e, s1)
              | Inr _ \<Rightarrow> try_except (Train_epoch env) store_error s1)"
    using rs by (simp add: Train_def Train_body_def thenS_def bindS_def try_except_def
                      split: sum.splits)
  show "train_dataloader (snd (Train env self)) = train_dataloader (snd (Train_reshuffle env self))"
    unfolding T rs using keepsD [OF k1, of s1] by (cases r) (simp_all add: store_error_def)
  show "val_dataloader (snd (Train env self)) = val_dataloader (snd (Train_reshuffle env self))"
    unfolding T rs using keepsD [OF k2, of s1] by (cases r) (simp_all add: store_error_def)
qed


lemma GetHyp_other_env:
  "template_hyp_fetcher env' = template_hyp_fetcher env \<Longrightarrow> GetHyp env' name = GetHyp env name"
  by (simp add: GetHyp_def cong: option.case_cong)

lemma train_batches_other_env:
  assumes "train_step env' = train_step env" "float_add env' = float_add env"
  shows "train_batches env' bs running s = train_batches env bs running s"
proof (induction bs arbitrary: running s)
  case Nil
  show ?case by simp
next
  case (Cons x bs)
  have "train_one env' b = train_one env b" for b
    by (simp add: train_one_def assms)
  then show ?case using Cons.IH by (cases x) (simp_all add: assms split: prod.splits sum.splits)
qed

lemma val_batches_other_env:
  assumes "eval_step env' = eval_step env" "float_add env' = float_add env"
  shows "val_batches env' bs running s = val_batches env bs running s"
proof (induction bs arbitrary: running s)
  case Nil
  show ?case by simp
next
  case (Cons x bs)
  have "val_one env' b = val_one env b" for b
    by (simp add: val_one_def assms)
  then show ?case using Cons.IH by (cases x) (simp_all add: assms split: prod.splits sum.splits)
qed

lemma Train_other_env:
  "Train (env\<lparr>iter_set := it, sample := smp, new_NeuralNetwork := nn, new_Adam := ad\<rparr>) = Train env"
proof -
  let ?env = "env\<lparr>iter_set := it, sample := smp, new_NeuralNetwork := nn, new_Adam := ad\<rparr>"
  have g: "GetHyp ?env name = GetHyp env name" for name
    by (rule GetHyp_other_env) simp
  have tb: "train_batches ?env bs running = train_batches env bs running" for bs running
    by (rule ext, rule train_batches_other_env) simp_all
  have vb: "val_batches ?env bs running = val_batches env bs running" for bs running
    by (rule ext, rule val_batches_other_env) simp_all
  have c1: "CreateTrainDataLoader ?env = CreateTrainDataLoader env"
    by (simp add: CreateTrainDataLoader_def g)
  have c2: "CreateValDataLoader ?env = CreateValDataLoader env"
    by (simp add: CreateValDataLoader_def g)
  have r: "Train_reshuffle ?env = Train_reshuffle env"
    by (simp add: Train_reshuffle_def g c1 c2 cong: if_cong)
  have e: "Train_epoch ?env = Train_epoch env"
    by (simp add: Train_epoch_def tb vb mean_loss_def cong: if_cong)
  show ?thesis by (simp add: Train_def Train_body_def r e)
qed

text \<open>
  Claim C9, as amended. \<open>Train\<close> never rebuilds a dataset or its vocabulary:
  \<open>train_dataset\<close> and \<open>val_dataset\<close> are the same after every call, whatever the
  options. What lines 233 to 235 rebuild, when they complete, is the \<open>DataLoader\<close> of the
  train set if \<open>shuffle_each_epoch\<close> and \<open>shuffle_train\<close> are both enabled, and the
  one of the validation set if \<open>shuffle_each_epoch\<close> and \<open>shuffle_val\<close> are, each over
  the dataset the instance already has; otherwise the loader is the one from before.
  And \<open>Train\<close> uses neither the iteration of a set, nor \<open>random.sample\<close>, nor the
  constructors of the network and of the optimizer: its result is the same whatever
  they are, so the model and the optimizer are those of the instance, which the
  training steps update.
\<close>

theorem Train_rebuilds_loaders_only:
  "train_dataset (snd (Train env self)) = train_dataset self
   \<and> val_dataset (snd (Train env self)) = val_dataset self
   \<and> (fst (Train_reshuffle env self) = Inr () \<longrightarrow>
        train_dataloader (snd (Train env self))
          = (if truthy (hyp env self ''shuffle_each_epoch'') \<and> truthy (hyp env self ''shuffle_train'')
             then Some (loader_for env self (the (train_dataset self)) ''shuffle_train'')
             else train_dataloader self)
      \<and> val_dataloader (snd (Train env self))
          = (if truthy (hyp env self ''shuffle_each_epoch'') \<and> truthy (hyp env self ''shuffle_val'')
             then Some (loader_for env self (the (val_dataset self)) ''shuffle_val'')
             else val_dataloader self))
   \<and> Train (env\<lparr>iter_set := it, sample := smp, new_NeuralNetwork := nn, new_Adam := ad\<rparr>) self
     = Train env self"
proof (intro conjI impI)
  show "train_dataset (snd (Train env self)) = train_dataset self"
    by (rule keepsD [OF Train_keeps_train_dataset])
  show "val_dataset (snd (Train env self)) = val_dataset self"
    by (rule keepsD [OF Train_keeps_val_dataset])
  show "Train (env\<lparr>iter_set := it, sample := smp, new_NeuralNetwork := nn, new_Adam := ad\<rparr>) self
        = Train env self"
    by (simp only: Train_other_env)
next
  assume ok: "fst (Train_reshuffle env self) = Inr ()"
  then have "Train_reshuffle env self = (Inr (), snd (Train_reshuffle env self))"
    by (metis prod.collapse)
  note R = Train_reshuffle_ok [OF this]
  show "train_dataloader (snd (Train env self))
          = (if truthy (hyp env self ''shuffle_each_epoch'') \<and> truthy (hyp env self ''shuffle_train'')
             then Some (loader_for env self (the (train_dataset self)) ''shuffle_train'')
             else train_dataloader self)"
    unfolding Train_loaders by (subst R) simp
  show "val_dataloader (snd (Train env self))
          = (if truthy (hyp env self ''shuffle_each_epoch'') \<and> truthy (hyp env self ''shuffle_val'')
             then Some (loader_for env self (the (val_dataset self)) ''shuffle_val'')
             else val_dataloader self)"
    unfolding Train_loaders by (subst R) simp
qed

lemma Train_ready:
  "Train example_env ready
   = (Inr (), ready\<lparr>model := Some 1, optimizer := Some 1, required_training_data := Some (0, 0)\<rparr>)"
  by (simp add: Train_def Train_body_def Train_reshuffle_def Train_epoch_def try_except_def
                bindS_def thenS_def checkS_def GetHyp_def bound_call_def GetHyp_params_def
                returnS_def liftS_def assignS_def CreateTrainDataLoader_params_def
                CreateTrainDataLoader_def CreateValDataLoader_params_def CreateValDataLoader_def
                attrS_def store_error_def constructed_def blank_def example_fetcher_def
                ready_def example_env_def train_one_def val_one_def mean_loss_def loader_of_def
                small_train_def small_val_def)

lemma Train_reshuffle_ready: "Train_reshuffle example_env ready = (Inr (), ready)"
  by (simp add: Train_reshuffle_def
                bindS_def thenS_def checkS_def GetHyp_def bound_call_def GetHyp_params_def
                returnS_def liftS_def assignS_def CreateTrainDataLoader_params_def
                CreateTrainDataLoader_def CreateValDataLoader_params_def CreateValDataLoader_def
                attrS_def constructed_def blank_def example_fetcher_def
                ready_def example_env_def loader_of_def
                small_train_def small_val_def)

theorem Train_rebuilds_loaders_only_witness:
  "fst (Train_reshuffle example_env ready) = Inr ()
   \<and> truthy (hyp example_env ready ''shuffle_each_epoch'')
   \<and> truthy (hyp example_env ready ''shuffle_train'')
   \<and> train_dataloader (snd (Train example_env ready))
     = Some (loader_for example_env ready small_train ''shuffle_train'')
   \<and> loader_for example_env ready small_train ''shuffle_train'' = loader_of small_train
   \<and> train_dataset (snd (Train example_env ready)) = Some small_train"
proof -
  have ok: "fst (Train_reshuffle example_env ready) = Inr ()"
    by (simp add: Train_reshuffle_ready)
  have h: "hyp example_env ready name = projr (example_fetcher name)"
    if "\<exists>v. example_fetcher name = Inr v" for name
    using that
    by (auto simp: hyp_def GetHyp_def thenS_def bindS_def checkS_def bound_call_def
                   GetHyp_params_def ready_def constructed_def)
  have t: "truthy (hyp example_env ready ''shuffle_each_epoch'')"
          "truthy (hyp example_env ready ''shuffle_train'')"
    by (subst h; simp add: example_fetcher_def)+
  have d: "train_dataset ready = Some small_train" by (simp add: ready_def)
  have l: "loader_for example_env ready small_train ''shuffle_train'' = loader_of small_train"
    unfolding loader_for_def loader_of_def
    by (subst h, simp add: example_fetcher_def)+ (simp add: example_fetcher_def)
  from Train_rebuilds_loaders_only [of example_env ready] ok t d
  have "train_dataloader (snd (Train example_env ready))
        = Some (loader_for example_env ready small_train ''shuffle_train'')"
    and "train_dataset (snd (Train example_env ready)) = Some small_train"
    by simp_all
  with ok t l show ?thesis by simp
qed

text \<open>
  Claim C9 as stated, refuted: with \<open>shuffle_each_epoch\<close> enabled, a \<open>Train\<close> call that
  completes without error leaves the train dataset with the vocabulary it had (\<open>a\<close>
  has id 2), not the one \<open>build_vocab\<close> would make now (\<open>a\<close> would get id 1); and the
  model is not unchanged either, the training step has updated it.
\<close>

theorem Train_rebuild_counterexample:
  "fst (GetHyp example_env ''shuffle_each_epoch'' ready) = Inr (HBool True)
   \<and> fst (Train example_env ready) = Inr ()
   \<and> error (snd (Train example_env ready)) = None
   \<and> train_dataset (snd (Train example_env ready)) = Some small_train
   \<and> vocab small_train CHR ''a'' = Some 2
   \<and> build_vocab (iter_set example_env) (data small_train) CHR ''a'' = Some 1
   \<and> model ready = Some 0
   \<and> model (snd (Train example_env ready)) = Some 1"
proof -
  have g: "fst (GetHyp example_env ''shuffle_each_epoch'' ready) = Inr (HBool True)"
    by (simp add: GetHyp_def thenS_def bindS_def checkS_def bound_call_def GetHyp_params_def
                  ready_def constructed_def example_fetcher_def)
  have b: "build_vocab (iter_set example_env) (data small_train) CHR ''a'' = Some 1"
    by code_simp
  have v: "vocab small_train CHR ''a'' = Some 2" by (simp add: small_train_def)
  have r: "error ready = None" "train_dataset ready = Some small_train" "model ready = Some 0"
    by (simp_all add: ready_def constructed_def blank_def)
  from g b v r show ?thesis unfolding Train_ready by simp
qed

lemma float_round_unit_err:
  assumes "0 \<le> x" "x \<le> B"
  shows "\<bar>float_round x - x\<bar> \<le> (B + 1) / 2 ^ 53"
proof -
  have "(1::rat) / 2 ^ 1075 \<le> 1 / 2 ^ 53"
    by (intro divide_left_mono power_increasing) simp_all
  moreover have "x / 2 ^ 53 \<le> B / 2 ^ 53" using assms(2) by (simp add: divide_right_mono)
  ultimately have "x / 2 ^ 53 + 1 / 2 ^ 1075 \<le> B / 2 ^ 53 + 1 / 2 ^ 53" by linarith
  also have "\<dots> = (B + 1) / 2 ^ 53" by (simp add: add_divide_distrib)
  finally show ?thesis using float_round_err [OF assms(1)] by linarith
qed

lemma float_round_in:
  assumes "0 \<le> x" "x \<le> of_nat k" "k < 2 ^ 53"
  shows "0 \<le> float_round x" "float_round x \<le> of_nat k"
proof -
  from assms have "x < 2 ^ 53"
    by (smt (verit) of_nat_less_iff of_nat_numeral of_nat_power order_le_less_trans)
  then show "0 \<le> float_round x" using assms(1) by (intro float_round_nonneg)
  show "float_round x \<le> of_nat k" by (rule float_round_le_nat [OF assms])
qed

lemma accuracy_value:
  fixes c t :: int
  assumes "0 \<le> c" "c \<le> t" "0 < t"
  defines "q \<equiv> float_round (of_int c / of_int t)"
  defines "p \<equiv> float_round (100 * q)"
  defines "acc \<equiv> float_round (of_int (round_half_even (p * 100)) / 100)"
  shows "accuracy c t = Inr (Some acc)"
    and "0 \<le> acc" and "acc \<le> 100"
    and "\<bar>acc - 100 * of_int c / of_int t\<bar> \<le> 1 / 200 + 1 / 10 ^ 13"
proof -
  let ?x = "of_int c / of_int t :: rat"
  let ?k = "round_half_even (p * 100)"
  let ?y = "of_int ?k / 100 :: rat"
  have x: "0 \<le> ?x" "?x \<le> of_nat 1" using assms(1-3) by simp_all
  have q: "0 \<le> q" "q \<le> 1" using float_round_in [OF x] by (simp_all add: q_def)
  have rq: "float_result ?x = Some q" unfolding q_def by (rule float_result_small [OF x]) simp
  have hq: "0 \<le> 100 * q" "100 * q \<le> of_nat 100" using q by simp_all
  have p: "0 \<le> p" "p \<le> 100" using float_round_in [OF hq] by (simp_all add: p_def)
  have rp: "float_result (100 * q) = Some p" unfolding p_def by (rule float_result_small [OF hq]) simp
  have "of_int 0 \<le> p * 100" using p by simp
  then have k0: "0 \<le> ?k" by (rule int_le_rhe)
  have "p * 100 \<le> of_int 10000" using p by simp
  then have k1: "?k \<le> 10000" by (rule rhe_le_int)
  have y: "0 \<le> ?y" "?y \<le> of_nat 100" using k0 k1 by simp_all
  have a: "0 \<le> acc" "acc \<le> 100" using float_round_in [OF y] by (simp_all add: acc_def)
  have ra: "float_result ?y = Some acc" unfolding acc_def by (rule float_result_small [OF y]) simp
  show "accuracy c t = Inr (Some acc)"
    using assms(3) by (simp add: accuracy_def int_truediv_def rq rp py_round2_def ra)
  show "0 \<le> acc" "acc \<le> 100" by (rule a)+
  define u :: rat where "u = 1 / 2 ^ 53"
  define X :: rat where "X = of_int c / of_int t"
  define Y :: rat where "Y = of_int (round_half_even (p * 100)) / 100"
  have e1: "\<bar>q - X\<bar> \<le> 2 * u"
    using float_round_unit_err [OF x(1), of 1] x(2) by (simp add: q_def u_def X_def)
  have e2: "\<bar>p - 100 * q\<bar> \<le> 101 * u"
    using float_round_unit_err [OF hq(1), of 100] hq(2) by (simp add: p_def u_def)
  have "\<bar>of_int ?k - p * 100\<bar> \<le> 1 / 2" by (rule rhe_err)
  then have "\<bar>(of_int ?k - p * 100) / 100\<bar> \<le> (1 / 2) / 100"
    unfolding abs_divide by (simp add: divide_right_mono)
  then have e3: "\<bar>Y - p\<bar> \<le> 1 / 200" by (simp add: Y_def diff_divide_distrib)
  have e4: "\<bar>acc - Y\<bar> \<le> 101 * u"
    using float_round_unit_err [OF y(1), of 100] y(2) by (simp add: acc_def u_def Y_def)
  have n: "403 * u \<le> 1 / 10 ^ 13" by (simp add: u_def)
  from e1 e2 e3 e4 have "\<bar>acc - 100 * X\<bar> \<le> 1 / 200 + 403 * u"
    unfolding abs_le_iff by linarith
  with n have "\<bar>acc - 100 * X\<bar> \<le> 1 / 200 + 1 / 10 ^ 13" by linarith
  then show "\<bar>acc - 100 * of_int c / of_int t\<bar> \<le> 1 / 200 + 1 / 10 ^ 13"
    by (simp add: X_def)
qed


lemma argmax_Inr: "row \<noteq> [] \<Longrightarrow> argmax row = Inr (projr (argmax row))"
  by (cases row) (simp_all add: argmax_def)

lemma predictions_map:
  "\<forall>row \<in> set rows. row \<noteq> [] \<Longrightarrow> predictions rows = Inr (map (\<lambda>row. projr (argmax row)) rows)"
proof (induction rows)
  case Nil
  show ?case by simp
next
  case (Cons row rows)
  then have "argmax row = Inr (projr (argmax row))" by (intro argmax_Inr) simp
  then obtain p where p: "argmax row = Inr p" "projr (argmax row) = p" by simp
  from Cons have "predictions rows = Inr (map (\<lambda>row. projr (argmax row)) rows)" by simp
  with p show ?case by simp
qed

lemma count_equal_le: "0 \<le> count_equal ps ls" "count_equal ps ls \<le> int (length ls)"
proof -
  show "0 \<le> count_equal ps ls" by (simp add: count_equal_def)
  have "length (filter (\<lambda>(p, l). p = l) (zip ps ls)) \<le> length (zip ps ls)" by (rule length_filter_le)
  also have "\<dots> \<le> length ls" by simp
  finally show "count_equal ps ls \<le> int (length ls)" by (simp add: count_equal_def)
qed

lemma count_equal_correct:
  assumes "\<forall>x \<in> set b. forward_row env m (fst x) \<noteq> []"
  shows "count_equal (map (\<lambda>row. projr (argmax row)) (map (forward_row env m) (map fst b))) (map snd b)
         = int (correct_predictions env m b)"
proof -
  have z: "zip (map (\<lambda>row. projr (argmax row)) (map (forward_row env m) (map fst b))) (map snd b)
           = map (\<lambda>x. (projr (argmax (forward_row env m (fst x))), snd x)) b"
    by (induction b) simp_all
  have "filter (\<lambda>x. projr (argmax (forward_row env m (fst x))) = snd x) b
        = filter (\<lambda>(x, l). argmax (forward_row env m x) = Inr l) b"
  proof (rule filter_cong [OF refl])
    fix x assume "x \<in> set b"
    with assms have "argmax (forward_row env m (fst x)) = Inr (projr (argmax (forward_row env m (fst x))))"
      by (intro argmax_Inr) simp
    then show "(projr (argmax (forward_row env m (fst x))) = snd x)
               = (case x of (x, l) \<Rightarrow> argmax (forward_row env m x) = Inr l)"
      by (cases x) auto
  qed
  then show ?thesis
    unfolding count_equal_def correct_predictions_def z
    by (simp add: filter_map o_def case_prod_beta)
qed

lemma count_one_ok:
  assumes "device self = Some dev" "forward_error env m dev (map fst b) = None"
      and "\<forall>x \<in> set b. forward_row env m (fst x) \<noteq> []"
  shows "count_one env m b (t, c) self
         = (Inr (t + int (length b), c + int (correct_predictions env m b)), self)"
proof -
  have "predictions (map (forward_row env m) (map fst b))
        = Inr (map (\<lambda>row. projr (argmax row)) (map (forward_row env m) (map fst b)))"
    using assms(3) by (intro predictions_map) simp
  then show ?thesis
    using assms(1,2) count_equal_correct [OF assms(3)]
    by (simp add: count_one_def bindS_def thenS_def attrS_def checkS_def liftS_def returnS_def)
qed

lemma count_batches_ok:
  assumes "device self = Some dev"
      and "\<forall>b \<in> set bs. forward_error env m dev (map fst b) = None"
      and "\<forall>b \<in> set bs. \<forall>x \<in> set b. forward_row env m (fst x) \<noteq> []"
  shows "count_batches env m (map Inr bs) (t, c) self
         = (Inr (t + int (length (concat bs)), c + int (correct_predictions env m (concat bs))), self)"
  using assms(2,3)
proof (induction bs arbitrary: t c)
  case Nil
  show ?case by (simp add: correct_predictions_def)
next
  case (Cons b bs)
  have 1: "count_one env m b (t, c) self
         = (Inr (t + int (length b), c + int (correct_predictions env m b)), self)"
    using Cons.prems by (intro count_one_ok [OF assms(1)]) simp_all
  have 2: "count_batches env m (map Inr bs) (t + int (length b), c + int (correct_predictions env m b)) self
         = (Inr (t + int (length b) + int (length (concat bs)),
                 c + int (correct_predictions env m b) + int (correct_predictions env m (concat bs))), self)"
    using Cons.prems by (intro Cons.IH) simp_all
  have 3: "correct_predictions env m (b @ concat bs)
           = correct_predictions env m b + correct_predictions env m (concat bs)"
    by (simp add: correct_predictions_def)
  show ?case by (simp add: 1 2 3)
qed

lemma count_one_bounds:
  assumes "count_one env m b (t, c) self = (Inr (t', c'), self')"
  shows "self' = self \<and> t \<le> t' \<and> c \<le> c' \<and> c' - c \<le> t' - t"
proof -
  from assms obtain predicted where
    "self' = self" "t' = t + int (length (map snd b))" "c' = c + count_equal predicted (map snd b)"
    by (auto simp: count_one_def bindS_def thenS_def attrS_def checkS_def liftS_def returnS_def
             split: option.splits sum.splits)
  then show ?thesis using count_equal_le [of predicted "map snd b"] by simp
qed

lemma count_batches_bounds:
  "count_batches env m bs (t, c) self = (Inr (t', c'), self')
   \<Longrightarrow> self' = self \<and> t \<le> t' \<and> c \<le> c' \<and> c' - c \<le> t' - t"
proof (induction bs arbitrary: t c)
  case Nil
  then show ?case by simp
next
  case (Cons x bs)
  show ?case
  proof (cases x)
    case (Inl e)
    with Cons.prems show ?thesis by simp
  next
    case (Inr b)
    obtain r s1 where o: "count_one env m b (t, c) self = (r, s1)"
      by (cases "count_one env m b (t, c) self")
    with Cons.prems Inr obtain t1 c1 where r: "r = Inr (t1, c1)"
      and rest: "count_batches env m bs (t1, c1) s1 = (Inr (t', c'), self')"
      by (cases r) auto
    from count_one_bounds [OF o [unfolded r]]
    have b1: "s1 = self" "t \<le> t1" "c \<le> c1" "c1 - c \<le> t1 - t" by simp_all
    from Cons.IH [OF rest [unfolded b1(1)]] b1 show ?thesis by simp
  qed
qed


text \<open>
  Claim C8. An accuracy of \<open>Save\<close> is \<open>loader_accuracy\<close> on the train or the validation
  loader. When the loader yields its batches, the model answers each of them and at
  least one sample is seen, the accuracy is computed and is
  \<open>round(100 * (correct / total), 2)\<close> in float arithmetic, where \<open>total\<close> is the number
  of samples seen and \<open>correct\<close> the number of those whose label is the index of the
  first largest score; it lies between 0 and 100 and differs from the exact
  \<open>100 * correct / total\<close> by at most half a unit of the second decimal (plus the
  rounding of the floats, below \<open>10^-13\<close>). And whenever an accuracy is computed at
  all, it is a finite number between 0 and 100.
\<close>

theorem loader_accuracy_percentage:
  "(loader self = Some dl \<and> device self = Some dev \<and> batches env dl = map Inr bs
      \<and> (\<forall>b \<in> set bs. forward_error env m dev (map fst b) = None)
      \<and> (\<forall>b \<in> set bs. \<forall>x \<in> set b. forward_row env m (fst x) \<noteq> [])
      \<and> concat bs \<noteq> [] \<longrightarrow>
    (\<exists>acc. loader_accuracy env m name loader self = (Inr (Some acc), self)
        \<and> acc = float_round (of_int (round_half_even
                   (float_round (100 * float_round
                      (of_int (int (correct_predictions env m (concat bs)))
                         / of_int (int (length (concat bs))))) * 100)) / 100)
        \<and> 0 \<le> acc \<and> acc \<le> 100
        \<and> \<bar>acc - 100 * of_nat (correct_predictions env m (concat bs)) / of_nat (length (concat bs))\<bar>
            \<le> 1 / 200 + 1 / 10 ^ 13))
   \<and> (loader_accuracy env m name loader self = (Inr a, self') \<longrightarrow>
        (\<exists>acc. a = Some acc \<and> 0 \<le> acc \<and> acc \<le> 100))"
proof (intro conjI impI)
  assume h: "loader self = Some dl \<and> device self = Some dev \<and> batches env dl = map Inr bs
      \<and> (\<forall>b \<in> set bs. forward_error env m dev (map fst b) = None)
      \<and> (\<forall>b \<in> set bs. \<forall>x \<in> set b. forward_row env m (fst x) \<noteq> [])
      \<and> concat bs \<noteq> []"
  let ?c = "int (correct_predictions env m (concat bs))"
  let ?t = "int (length (concat bs))"
  from h have cb: "count_batches env m (batches env dl) (0, 0) self = (Inr (?t, ?c), self)"
    using count_batches_ok [of self dev bs env m 0 0] by simp
  have c0: "0 \<le> ?c" by simp
  have ct: "?c \<le> ?t" unfolding correct_predictions_def by (simp add: length_filter_le)
  from h have t0: "0 < ?t" by simp
  note A = accuracy_value [OF c0 ct t0]
  have la: "loader_accuracy env m name loader self = (accuracy ?c ?t, self)"
    using h cb by (simp add: loader_accuracy_def bindS_def attrS_def liftS_def)
  show "\<exists>acc. loader_accuracy env m name loader self = (Inr (Some acc), self)
        \<and> acc = float_round (of_int (round_half_even
                   (float_round (100 * float_round (of_int ?c / of_int ?t)) * 100)) / 100)
        \<and> 0 \<le> acc \<and> acc \<le> 100
        \<and> \<bar>acc - 100 * of_nat (correct_predictions env m (concat bs)) / of_nat (length (concat bs))\<bar>
            \<le> 1 / 200 + 1 / 10 ^ 13"
    using A la by (intro exI [of _ "float_round (of_int (round_half_even
                   (float_round (100 * float_round (of_int ?c / of_int ?t)) * 100)) / 100)"]) simp
next
  assume r: "loader_accuracy env m name loader self = (Inr a, self')"
  then obtain dl where dl: "loader self = Some dl"
    by (auto simp: loader_accuracy_def bindS_def attrS_def split: option.splits)
  obtain res s1 where cb: "count_batches env m (batches env dl) (0, 0) self = (res, s1)"
    by (cases "count_batches env m (batches env dl) (0, 0) self")
  with r dl obtain t c where res: "res = Inr (t, c)" and acc: "accuracy c t = Inr a"
    by (cases res) (auto simp: loader_accuracy_def bindS_def attrS_def liftS_def)
  from count_batches_bounds [OF cb [unfolded res]] have b: "0 \<le> t" "0 \<le> c" "c \<le> t" by simp_all
  from acc have "t \<noteq> 0" by (auto simp: accuracy_def int_truediv_def)
  with b have t0: "0 < t" by simp
  from accuracy_value [OF b(2) b(3) t0] acc
  show "\<exists>acc. a = Some acc \<and> 0 \<le> acc \<and> acc \<le> 100" by auto
qed

lemma batches_ready:
  "batches example_env (loader_of small_train) = map Inr [[([2, 1, 1, 0], 1), ([1, 2, 2, 0], 0), ([1, 0, 2, 1], 1)]]"
  by (simp add: example_env_def loader_of_def small_train_def getitem_def py_index_def
                py_slice_to_def encode_def py_repeat_def vocab_get_def Let_def upt_rec)

lemma accuracy_two_of_three:
  "float_round (of_int (round_half_even (float_round (100 * float_round (2 / 3)) * 100)) / 100)
   = 4691484174324859 / 2 ^ 46"
proof -
  define q0 :: rat where "q0 = 6004799503160661 / 2 ^ 53"
  define p0 :: rat where "p0 = 4691249611844266 / 2 ^ 46"
  have 1: "float_round (2 / 3) = q0"
    unfolding q0_def by (subst float_round_normal [of "- 53"]) code_simp+
  have 2: "float_round (100 * q0) = p0"
    unfolding q0_def p0_def by (subst float_round_normal [of "- 46"]) code_simp+
  have 3: "round_half_even (p0 * 100) = 6667"
    unfolding p0_def by code_simp
  have 4: "float_round (of_int 6667 / 100) = 4691484174324859 / 2 ^ 46"
    by (subst float_round_normal [of "- 46"]) code_simp+
  show ?thesis by (simp only: 1 2 3 4)
qed

theorem loader_accuracy_percentage_witness:
  "loader_accuracy example_env 0 ''train_dataloader'' train_dataloader ready
     = (Inr (Some (4691484174324859 / 2 ^ 46)), ready)
   \<and> correct_predictions example_env 0 [([2, 1, 1, 0], 1), ([1, 2, 2, 0], 0), ([1, 0, 2, 1], 1)] = 2
   \<and> \<bar>4691484174324859 / 2 ^ 46 - 100 * 2 / 3\<bar> \<le> (1 / 200 + 1 / 10 ^ 13 :: rat)"
proof -
  let ?b = "[([2, 1, 1, 0], 1), ([1, 2, 2, 0], 0), ([1, 0, 2, 1], 1)] :: batch"
  have c: "correct_predictions example_env 0 ?b = 2"
    by (simp add: correct_predictions_def example_env_def argmax_def)
  have h: "train_dataloader ready = Some (loader_of small_train) \<and> device ready = Some ''cpu''
      \<and> batches example_env (loader_of small_train) = map Inr [?b]
      \<and> (\<forall>b \<in> set [?b]. forward_error example_env 0 ''cpu'' (map fst b) = None)
      \<and> (\<forall>b \<in> set [?b]. \<forall>x \<in> set b. forward_row example_env 0 (fst x) \<noteq> [])
      \<and> concat [?b] \<noteq> []"
    using batches_ready by (simp add: ready_def constructed_def example_env_def)
  from loader_accuracy_percentage [of train_dataloader ready "loader_of small_train" "''cpu''"
          example_env "[?b]" 0 "''train_dataloader''"] h
  obtain acc where
    1: "loader_accuracy example_env 0 ''train_dataloader'' train_dataloader ready
        = (Inr (Some acc), ready)"
    and 2: "acc = float_round (of_int (round_half_even
                   (float_round (100 * float_round
                      (of_int (int (correct_predictions example_env 0 (concat [?b])))
                         / of_int (int (length (concat [?b]))))) * 100)) / 100)"
    and 3: "\<bar>acc - 100 * of_nat (correct_predictions example_env 0 (concat [?b]))
                      / of_nat (length (concat [?b]))\<bar> \<le> 1 / 200 + 1 / 10 ^ 13"
    by blast
  have x: "of_int (int (correct_predictions example_env 0 (concat [?b])))
              / of_int (int (length (concat [?b]))) = (2 / 3 :: rat)"
    by (simp add: c)
  from 2 have a: "acc = 4691484174324859 / 2 ^ 46"
    unfolding x by (simp only: accuracy_two_of_three)
  from 1 3 c show ?thesis unfolding a by simp
qed

end
